theory Spec2Isabelle
  imports Complex_Main "HOL-Library.Sublist" "HOL-Library.Multiset"
begin

section \<open>JavaScript values\<close>

text \<open>
  The worker is JavaScript. Its numbers are modelled by their mathematical values: a
  finite number is an exact rational, next to \<open>NaN\<close> and the two infinities. Arithmetic
  on finite values is exact (the rounding and the overflow of IEEE doubles are not
  modelled, and neither is the sign of zero). Strings are lists of 8-bit characters;
  every character test of the code is on ASCII characters.
\<close>

datatype jsnum = Fin rat | NaN | PInf | NInf

datatype jsval = Undefined | Null | Bool bool | Num jsnum | Str string

fun js_neg :: "jsnum \<Rightarrow> jsnum" where
  "js_neg (Fin a) = Fin (- a)"
| "js_neg NaN = NaN"
| "js_neg PInf = NInf"
| "js_neg NInf = PInf"

fun js_add :: "jsnum \<Rightarrow> jsnum \<Rightarrow> jsnum" where
  "js_add (Fin a) (Fin b) = Fin (a + b)"
| "js_add NaN _ = NaN"
| "js_add _ NaN = NaN"
| "js_add PInf NInf = NaN"
| "js_add NInf PInf = NaN"
| "js_add PInf _ = PInf"
| "js_add _ PInf = PInf"
| "js_add NInf _ = NInf"
| "js_add _ NInf = NInf"

definition js_sub :: "jsnum \<Rightarrow> jsnum \<Rightarrow> jsnum" where
  "js_sub a b = js_add a (js_neg b)"

fun js_mul :: "jsnum \<Rightarrow> jsnum \<Rightarrow> jsnum" where
  "js_mul (Fin a) (Fin b) = Fin (a * b)"
| "js_mul NaN _ = NaN"
| "js_mul _ NaN = NaN"
| "js_mul PInf (Fin b) = (if b = 0 then NaN else if 0 < b then PInf else NInf)"
| "js_mul NInf (Fin b) = (if b = 0 then NaN else if 0 < b then NInf else PInf)"
| "js_mul (Fin a) PInf = (if a = 0 then NaN else if 0 < a then PInf else NInf)"
| "js_mul (Fin a) NInf = (if a = 0 then NaN else if 0 < a then NInf else PInf)"
| "js_mul PInf PInf = PInf"
| "js_mul PInf NInf = NInf"
| "js_mul NInf PInf = NInf"
| "js_mul NInf NInf = PInf"

text \<open>Division by a zero is division by \<open>+0\<close>.\<close>

fun js_div :: "jsnum \<Rightarrow> jsnum \<Rightarrow> jsnum" where
  "js_div (Fin a) (Fin b) =
     (if b \<noteq> 0 then Fin (a / b) else if a = 0 then NaN else if 0 < a then PInf else NInf)"
| "js_div NaN _ = NaN"
| "js_div _ NaN = NaN"
| "js_div (Fin a) PInf = Fin 0"
| "js_div (Fin a) NInf = Fin 0"
| "js_div PInf (Fin b) = (if 0 \<le> b then PInf else NInf)"
| "js_div NInf (Fin b) = (if 0 \<le> b then NInf else PInf)"
| "js_div PInf PInf = NaN"
| "js_div PInf NInf = NaN"
| "js_div NInf PInf = NaN"
| "js_div NInf NInf = NaN"

text \<open>The comparison \<open>a < b\<close> of two numbers: false when either is \<open>NaN\<close>.\<close>

fun js_lt :: "jsnum \<Rightarrow> jsnum \<Rightarrow> bool" where
  "js_lt (Fin a) (Fin b) = (a < b)"
| "js_lt NaN _ = False"
| "js_lt _ NaN = False"
| "js_lt NInf NInf = False"
| "js_lt NInf _ = True"
| "js_lt _ NInf = False"
| "js_lt PInf _ = False"
| "js_lt _ PInf = True"

text \<open>\<open>a >= b\<close>: neither is \<open>NaN\<close> and \<open>a < b\<close> is false.\<close>

definition js_ge :: "jsnum \<Rightarrow> jsnum \<Rightarrow> bool" where
  "js_ge a b = (a \<noteq> NaN \<and> b \<noteq> NaN \<and> \<not> js_lt a b)"

text \<open>Truthiness (\<open>ToBoolean\<close>), as \<open>if (v)\<close>, \<open>!v\<close>, \<open>a && b\<close> and \<open>a || b\<close> test it.\<close>

fun truthy :: "jsval \<Rightarrow> bool" where
  "truthy Undefined = False"
| "truthy Null = False"
| "truthy (Bool b) = b"
| "truthy (Num n) = (n \<noteq> NaN \<and> n \<noteq> Fin 0)"
| "truthy (Str s) = (s \<noteq> [])"

definition js_or :: "jsval \<Rightarrow> jsval \<Rightarrow> jsval" where
  "js_or a b = (if truthy a then a else b)"

section \<open>Strings and numbers\<close>

definition is_digit :: "char \<Rightarrow> bool" where
  "is_digit c = (c \<in> set ''0123456789'')"

definition is_upper :: "char \<Rightarrow> bool" where
  "is_upper c = (c \<in> set ''ABCDEFGHIJKLMNOPQRSTUVWXYZ'')"

text \<open>White space and line terminators, as \<open>trim\<close> and \<open>parseFloat\<close> strip them (the ASCII ones).\<close>

definition is_space :: "char \<Rightarrow> bool" where
  "is_space c = (c \<in> set [CHR '' '', CHR 0x09, CHR 0x0A, CHR 0x0B, CHR 0x0C, CHR 0x0D])"

definition js_trim :: "string \<Rightarrow> string" where
  "js_trim s = rev (dropWhile is_space (rev (dropWhile is_space s)))"

definition slice :: "nat \<Rightarrow> nat \<Rightarrow> string \<Rightarrow> string" where
  "slice a b s = take (b - a) (drop a s)"

definition digit_char :: "nat \<Rightarrow> char" where
  "digit_char d = ''0123456789'' ! d"

fun digits_of :: "nat \<Rightarrow> string" where
  "digits_of n = (if n < 10 then [digit_char n] else digits_of (n div 10) @ [digit_char (n mod 10)])"

declare digits_of.simps [simp del]

text \<open>
  \<open>Number::toString\<close>. On integers of magnitude up to \<open>2^53\<close> it writes the decimal digits.
  On the other finite values the string depends on the binary representation of the
  double, which the model does not have: there it is the parameter \<open>numstr\<close>.
\<close>

definition Number_toString :: "(rat \<Rightarrow> string) \<Rightarrow> jsnum \<Rightarrow> string" where
  "Number_toString numstr n =
     (case n of
        NaN \<Rightarrow> ''NaN''
      | PInf \<Rightarrow> ''Infinity''
      | NInf \<Rightarrow> ''-Infinity''
      | Fin q \<Rightarrow>
          if of_int \<lfloor>q\<rfloor> = q \<and> \<bar>q\<bar> \<le> 2 ^ 53
          then (if q < 0 then ''-'' else '''') @ digits_of (nat \<bar>\<lfloor>q\<rfloor>\<bar>)
          else numstr q)"

text \<open>\<open>String(v)\<close> and the conversion of a template literal \<open>${v}\<close>.\<close>

fun ToString :: "(rat \<Rightarrow> string) \<Rightarrow> jsval \<Rightarrow> string" where
  "ToString numstr Undefined = ''undefined''"
| "ToString numstr Null = ''null''"
| "ToString numstr (Bool b) = (if b then ''true'' else ''false'')"
| "ToString numstr (Num n) = Number_toString numstr n"
| "ToString numstr (Str s) = s"

subsection \<open>Reading a number from a string\<close>

definition digit_val :: "char \<Rightarrow> nat" where
  "digit_val c = of_char c - 48"

definition nat_of_digits :: "string \<Rightarrow> nat" where
  "nat_of_digits ds = foldl (\<lambda>n c. 10 * n + digit_val c) 0 ds"

definition pow10 :: "int \<Rightarrow> rat" where
  "pow10 e = (if 0 \<le> e then 10 ^ nat e else 1 / 10 ^ nat (- e))"

text \<open>
  \<open>ExponentPart\<close>, optional: \<open>e\<close> or \<open>E\<close>, an optional sign and at least one digit. The
  result is the exponent and what follows it; without a digit nothing is consumed.
\<close>

definition scan_exponent :: "string \<Rightarrow> int \<times> string" where
  "scan_exponent s =
     (case s of
        [] \<Rightarrow> (0, s)
      | c # r \<Rightarrow>
          if c = CHR ''e'' \<or> c = CHR ''E'' then
            (let neg = (r \<noteq> [] \<and> hd r = CHR ''-'');
                 r' = (if r \<noteq> [] \<and> (hd r = CHR ''-'' \<or> hd r = CHR ''+'') then tl r else r);
                 ds = takeWhile is_digit r'
             in if ds = [] then (0, s)
                else ((if neg then - int (nat_of_digits ds) else int (nat_of_digits ds)),
                      dropWhile is_digit r'))
          else (0, s))"

text \<open>
  The longest prefix that is a \<open>StrUnsignedDecimalLiteral\<close> (\<open>Infinity\<close>, \<open>12\<close>, \<open>12.\<close>,
  \<open>12.5\<close>, \<open>.5\<close>, each but the first with an optional exponent), with its value and the
  rest of the string; \<open>None\<close> when no prefix is one.
\<close>

definition scan_unsigned :: "string \<Rightarrow> (jsnum \<times> string) option" where
  "scan_unsigned s =
     (if take 8 s = ''Infinity'' then Some (PInf, drop 8 s)
      else
        (let ip = takeWhile is_digit s;
             r1 = dropWhile is_digit s;
             dot = (r1 \<noteq> [] \<and> hd r1 = CHR ''.'');
             fp = (if dot then takeWhile is_digit (tl r1) else []);
             r2 = (if dot then dropWhile is_digit (tl r1) else r1)
         in if ip = [] \<and> fp = [] then None
            else
              (let (e, r3) = scan_exponent r2;
                   m = of_nat (nat_of_digits ip) + of_nat (nat_of_digits fp) / 10 ^ length fp
               in Some (Fin (m * pow10 e), r3))))"

text \<open>\<open>StrDecimalLiteral\<close>: an optional sign before the unsigned literal.\<close>

definition scan_decimal :: "string \<Rightarrow> (jsnum \<times> string) option" where
  "scan_decimal s =
     (case s of
        [] \<Rightarrow> None
      | c # r \<Rightarrow>
          if c = CHR ''+'' then scan_unsigned r
          else if c = CHR ''-'' then map_option (\<lambda>(v, t). (js_neg v, t)) (scan_unsigned r)
          else scan_unsigned s)"

text \<open>
  \<open>parseFloat\<close>: leading white space is skipped, the longest prefix that is a decimal
  literal is read, whatever follows is ignored; \<open>NaN\<close> when there is no such prefix.
\<close>

definition parseFloat :: "string \<Rightarrow> jsnum" where
  "parseFloat s =
     (case scan_decimal (dropWhile is_space s) of None \<Rightarrow> NaN | Some (v, _) \<Rightarrow> v)"

text \<open>
  \<open>StringToNumber\<close>, the conversion that arithmetic applies to a string: the trimmed
  string is empty (0), a hexadecimal, octal or binary literal, or a decimal literal with
  nothing after it; \<open>NaN\<close> otherwise.
\<close>

definition radix_digit :: "char \<Rightarrow> nat" where
  "radix_digit c =
     (if is_digit c then digit_val c
      else if c \<in> set ''abcdef'' then of_char c - 87
      else if c \<in> set ''ABCDEF'' then of_char c - 55
      else 16)"

definition radix_literal :: "string \<Rightarrow> nat option" where
  "radix_literal t =
     (case t of
        z # x # ds \<Rightarrow>
          (let b = (if x \<in> set ''xX'' then 16 else if x \<in> set ''oO'' then 8
                    else if x \<in> set ''bB'' then 2 else (0::nat))
           in if z = CHR ''0'' \<and> b \<noteq> 0 \<and> ds \<noteq> [] \<and> list_all (\<lambda>c. radix_digit c < b) ds
              then Some (foldl (\<lambda>n c. b * n + radix_digit c) 0 ds)
              else None)
      | _ \<Rightarrow> None)"

definition StringToNumber :: "string \<Rightarrow> jsnum" where
  "StringToNumber s =
     (let t = js_trim s
      in if t = [] then Fin 0
         else case radix_literal t of
                Some n \<Rightarrow> Fin (of_nat n)
              | None \<Rightarrow> (case scan_decimal t of Some (v, []) \<Rightarrow> v | _ \<Rightarrow> NaN))"

fun ToNumber :: "jsval \<Rightarrow> jsnum" where
  "ToNumber Undefined = NaN"
| "ToNumber Null = Fin 0"
| "ToNumber (Bool b) = Fin (if b then 1 else 0)"
| "ToNumber (Num n) = n"
| "ToNumber (Str s) = StringToNumber s"

subsection \<open>Writing a number: \<open>Intl.NumberFormat('en-US', ...)\<close>\<close>

text \<open>
  The integer part is grouped by thousands. The worker always asks for exactly two
  fraction digits; a value half way between two of them is rounded away from zero.
\<close>

fun grouped :: "nat \<Rightarrow> string" where
  "grouped n =
     (if n < 1000 then digits_of n
      else grouped (n div 1000) @ '','' @
        [digit_char (n mod 1000 div 100), digit_char (n mod 100 div 10), digit_char (n mod 10)])"

declare grouped.simps [simp del]

definition fixed2 :: "rat \<Rightarrow> string" where
  "fixed2 q =
     (let n = nat \<lfloor>\<bar>q\<bar> * 100 + 1 / 2\<rfloor>
      in grouped (n div 100) @ ''.'' @ [digit_char (n mod 100 div 10), digit_char (n mod 10)])"

text \<open>The sign displayed by \<open>signDisplay: 'always'\<close> and the infinity sign (U+221E, in UTF-8).\<close>

definition infinity_sign :: string where
  "infinity_sign = [CHR 0xE2, CHR 0x88, CHR 0x9E]"

definition format_signed :: "jsnum \<Rightarrow> string" where
  "format_signed n =
     (case n of
        Fin q \<Rightarrow> (if q < 0 then ''-'' else ''+'') @ fixed2 q
      | NaN \<Rightarrow> ''+NaN''
      | PInf \<Rightarrow> ''+'' @ infinity_sign
      | NInf \<Rightarrow> ''-'' @ infinity_sign)"

text \<open>\<open>style: 'percent'\<close>: the value times 100, a minus sign for a negative value, \<open>%\<close> after it.\<close>

definition format_percent :: "jsnum \<Rightarrow> string" where
  "format_percent n =
     (case n of
        Fin q \<Rightarrow> (if q < 0 then ''-'' else '''') @ fixed2 (q * 100) @ ''%''
      | NaN \<Rightarrow> ''NaN%''
      | PInf \<Rightarrow> infinity_sign @ ''%''
      | NInf \<Rightarrow> ''-'' @ infinity_sign @ ''%'')"

section \<open>The formatting helpers of the worker\<close>

definition formatDate :: "(rat \<Rightarrow> string) \<Rightarrow> jsval \<Rightarrow> string" where
  "formatDate numstr dateNum =
     (if \<not> truthy dateNum then ''''
      else
        (let dateStr = ToString numstr dateNum
         in if length dateStr = 8
            then slice 0 4 dateStr @ ''-'' @ slice 4 6 dateStr @ ''-'' @ slice 6 8 dateStr
            else dateStr))"

definition formatPercent :: "jsval \<Rightarrow> string" where
  "formatPercent num =
     (if num = Null \<or> num = Undefined \<or> num = Str '''' then ''''
      else format_percent (ToNumber num))"

definition formatChangePercent :: "jsval \<Rightarrow> string" where
  "formatChangePercent num =
     (if num = Null \<or> num = Undefined \<or> num = Str '''' then ''''
      else format_signed (ToNumber num) @ ''%'')"

section \<open>Rows of the spreadsheet\<close>

text \<open>
  \<open>XLSX.utils.sheet_to_json(worksheet, {range: 5})\<close> gives one object per data row, keyed
  by the header cells of row 5. A cell holds a number, a string or a boolean; an empty
  cell leaves its key out, so reading it gives \<open>undefined\<close>.
\<close>

record row =
  DATE :: jsval
  CUSIP :: jsval
  TICKER :: jsval
  DESCRIPTION :: jsval
  SHARES :: jsval
  BASE_MV :: jsval
  PCT_HOLDINGS :: jsval

text \<open>\<open>jsonData.filter(row => { const ticker = row['TICKER']; return ticker && String(ticker).trim() !== ''; })\<close>\<close>

definition keeps :: "(rat \<Rightarrow> string) \<Rightarrow> row \<Rightarrow> bool" where
  "keeps numstr r = (truthy (TICKER r) \<and> js_trim (ToString numstr (TICKER r)) \<noteq> '''')"

definition filteredData :: "(rat \<Rightarrow> string) \<Rightarrow> row list \<Rightarrow> row list" where
  "filteredData numstr jsonData = filter (keeps numstr) jsonData"

section \<open>Symbol resolution\<close>

text \<open>
  \<open>/^([A-Z]+?)([A-Z]\d+)$/\<close>: the first group is lazy, so the shortest non-empty run of
  capitals is tried first; the rest must be one capital and then digits up to the end.
  \<open>lazy_contract p s\<close> has read \<open>p\<close> into the first group and looks at \<open>s\<close>.
\<close>

fun lazy_contract :: "string \<Rightarrow> string \<Rightarrow> (string \<times> string) option" where
  "lazy_contract p [] = None"
| "lazy_contract p (c # cs) =
     (if p \<noteq> [] \<and> is_upper c \<and> cs \<noteq> [] \<and> list_all is_digit cs then Some (p, c # cs)
      else if is_upper c then lazy_contract (p @ [c]) cs
      else None)"

definition match_contract :: "string \<Rightarrow> (string \<times> string) option" where
  "match_contract ticker = lazy_contract [] ticker"

text \<open>\<open>/^([A-Z]+)/\<close>: the longest run of capitals at the start, when there is one.\<close>

definition match_letters :: "string \<Rightarrow> string option" where
  "match_letters ticker =
     (let p = takeWhile is_upper ticker in if p = [] then None else Some p)"

text \<open>
  \<open>const commodityPrefix = match ? match[1] : ticker.match(/^([A-Z]+)/)?.[1] || ticker;\<close>
\<close>

definition commodityPrefix :: "string \<Rightarrow> string" where
  "commodityPrefix ticker =
     (case match_contract ticker of
        Some (p, _) \<Rightarrow> p
      | None \<Rightarrow> (case match_letters ticker of Some p \<Rightarrow> p | None \<Rightarrow> ticker))"

definition convertToYahooSymbol :: "string \<Rightarrow> string" where
  "convertToYahooSymbol ticker =
     (case match_contract ticker of
        Some (p, _) \<Rightarrow> p @ ''=F''
      | None \<Rightarrow>
          (case match_letters ticker of
             Some p \<Rightarrow> p @ ''=F''
           | None \<Rightarrow> ticker))"

text \<open>
  Where \<open>fetchSinglePrice\<close> sends a ticker: to the Barchart page of a root symbol, or to
  the Yahoo chart of a lookup symbol.
\<close>

datatype route = Barchart string | Yahoo string

definition resolve :: "string \<Rightarrow> route" where
  "resolve ticker =
     (if commodityPrefix ticker = ''MFS'' then Barchart ''DI''
      else if commodityPrefix ticker = ''MES'' then Barchart ''M0''
      else Yahoo (convertToYahooSymbol ticker))"

section \<open>Quotes\<close>

text \<open>
  An awaited call either throws an error (\<open>Inl\<close>, with its message) or returns (\<open>Inr\<close>).
  A response carries its status line and what reading its body gives: the decoded
  body, or the error that \<open>response.text()\<close>, \<open>response.json()\<close> or the parser throws.
  \<open>response.ok\<close> is true for the statuses 200 to 299.
\<close>

datatype exn = Error string

fun message :: "exn \<Rightarrow> string" where
  "message (Error m) = m"

type_synonym 'a result = "exn + 'a"

record 'b response =
  status :: nat
  statusText :: string
  payload :: "'b result"

definition ok :: "('b, 'x) response_scheme \<Rightarrow> bool" where
  "ok r = (200 \<le> status r \<and> status r \<le> 299)"

text \<open>
  Of the JSON of the Yahoo chart the code reads \<open>data?.chart?.result?.[0]?.meta\<close>, three
  prices in it, and \<open>data?.chart?.error\<close>. \<open>chart_meta\<close> is \<open>None\<close> when the chain gives
  nothing, or a value without these fields. The code does not check what kind of value a price is: here it is any primitive
  value of JSON, a number, a string, a boolean or \<open>null\<close>, and \<open>Undefined\<close> when the field
  is absent. An array or an object in the place of a price is left out.
\<close>

record meta =
  regularMarketPrice :: jsval
  chartPreviousClose :: jsval
  previousClose :: jsval

record chart =
  chart_meta :: "meta option"
  chart_error :: bool

text \<open>
  What the worker meets outside itself: the answers of the three servers (the Yahoo
  chart by lookup symbol, the Barchart page by root symbol, the spreadsheet with its
  rows as \<open>sheet_to_json\<close> gives them), \<open>Number::toString\<close> where the model leaves it
  open, and the clock's \<open>new Date().toUTCString()\<close>. A server gives the same answer
  each time it is asked for the same symbol within one request.
\<close>

record world =
  yahoo :: "string \<Rightarrow> chart response result"
  barchart :: "string \<Rightarrow> string response result"
  excel :: "row list response result"
  numstr :: "rat \<Rightarrow> string"
  utc_now :: string

text \<open>
  \<open>html.match(/"percentChange":"([^"]+)"/)\<close>: the first place where the key is followed by
  at least one character other than a double quote and then a double quote; the result
  is that run of characters.
\<close>

definition percentChange_key :: string where
  "percentChange_key = ''\"percentChange\":\"''"

fun match_percentChange :: "string \<Rightarrow> string option" where
  "match_percentChange [] = None"
| "match_percentChange (c # cs) =
     (let s = c # cs;
          after = drop (length percentChange_key) s;
          v = takeWhile (\<lambda>x. x \<noteq> CHR 0x22) after;
          r = dropWhile (\<lambda>x. x \<noteq> CHR 0x22) after
      in if take (length percentChange_key) s = percentChange_key \<and> v \<noteq> [] \<and> r \<noteq> []
         then Some v
         else match_percentChange cs)"

text \<open>\<open>try { ... } catch (error) { console.error(...); return 'N/A'; }\<close>\<close>

definition catch_NA :: "string result \<Rightarrow> string result" where
  "catch_NA r = (case r of Inl e \<Rightarrow> Inr ''N/A'' | Inr s \<Rightarrow> Inr s)"

definition fetchBarchartPrice_try :: "world \<Rightarrow> string \<Rightarrow> string result" where
  "fetchBarchartPrice_try w root' =
     (case barchart w root' of
        Inl e \<Rightarrow> Inl e
      | Inr response \<Rightarrow>
          if \<not> ok response then Inr ''N/A''
          else
            (case payload response of
               Inl e \<Rightarrow> Inl e
             | Inr html \<Rightarrow>
                 (case match_percentChange html of
                    Some percentStr \<Rightarrow>
                      (let percentValue = parseFloat (remove1 CHR ''%'' percentStr)
                       in if percentValue \<noteq> NaN then Inr (formatChangePercent (Num percentValue))
                          else Inr ''N/A'')
                  | None \<Rightarrow> Inr ''N/A'')))"

definition fetchBarchartPrice :: "world \<Rightarrow> string \<Rightarrow> string result" where
  "fetchBarchartPrice w root' = catch_NA (fetchBarchartPrice_try w root')"

text \<open>The part of \<open>fetchSinglePrice\<close> after \<open>convertToYahooSymbol\<close>.\<close>

definition yahooQuote :: "world \<Rightarrow> string \<Rightarrow> string result" where
  "yahooQuote w yahooTicker =
     (case yahoo w yahooTicker of
        Inl e \<Rightarrow> Inl e
      | Inr response \<Rightarrow>
          if \<not> ok response then Inr ''N/A''
          else
            (case payload response of
               Inl e \<Rightarrow> Inl e
             | Inr data \<Rightarrow>
                 (case chart_meta data of
                    Some m \<Rightarrow>
                      (let currentPrice = regularMarketPrice m;
                           prevClose = js_or (chartPreviousClose m) (previousClose m)
                       in if truthy currentPrice \<and> truthy prevClose
                          then Inr (formatChangePercent (Num
                                 (js_mul (js_div (js_sub (ToNumber currentPrice) (ToNumber prevClose))
                                            (ToNumber prevClose)) (Fin 100))))
                          else Inr ''N/A'')
                  | None \<Rightarrow> Inr ''N/A'')))"

text \<open>
  The ticker is the cell itself. \<open>ticker.match\<close> exists on a string only: on any other
  value the call throws a \<open>TypeError\<close>, inside the \<open>try\<close>.
\<close>

definition fetchSinglePrice_try :: "world \<Rightarrow> jsval \<Rightarrow> string result" where
  "fetchSinglePrice_try w ticker =
     (case ticker of
        Str t \<Rightarrow>
          if commodityPrefix t = ''MFS'' then fetchBarchartPrice w ''DI''
          else if commodityPrefix t = ''MES'' then fetchBarchartPrice w ''M0''
          else yahooQuote w (convertToYahooSymbol t)
      | _ \<Rightarrow> Inl (Error ''ticker.match is not a function''))"

definition fetchSinglePrice :: "world \<Rightarrow> jsval \<Rightarrow> string result" where
  "fetchSinglePrice w ticker = catch_NA (fetchSinglePrice_try w ticker)"

text \<open>\<open>Promise.all\<close>: every result, or the first error.\<close>

fun all_results :: "'a result list \<Rightarrow> 'a list result" where
  "all_results [] = Inr []"
| "all_results (r # rs) =
     (case r of
        Inl e \<Rightarrow> Inl e
      | Inr x \<Rightarrow> (case all_results rs of Inl e \<Rightarrow> Inl e | Inr xs \<Rightarrow> Inr (x # xs)))"

text \<open>
  \<open>fetchTickerPrices\<close>: the loop \<open>for (let i = 0; i < tickers.length; i += batchSize)\<close>.
  \<open>prices\<close> is an object used as a dictionary; \<open>prices[ticker] = ...\<close> converts the
  ticker to its property key, a string. The key \<open>__proto__\<close>, which an object does not
  store like the others, is left out.
\<close>

function fetchBatches ::
  "world \<Rightarrow> jsval list \<Rightarrow> nat \<Rightarrow> (string \<rightharpoonup> string) \<Rightarrow> (string \<rightharpoonup> string) result" where
  "fetchBatches w tickers i prices =
     (if i < length tickers then
        (let batch = take 10 (drop i tickers)
         in case all_results (map (fetchSinglePrice w) batch) of
              Inl e \<Rightarrow> Inl e
            | Inr batchResults \<Rightarrow>
                fetchBatches w tickers (i + 10)
                  (foldl (\<lambda>m (ticker, r). m(ToString (numstr w) ticker \<mapsto> r)) prices
                     (zip batch batchResults)))
      else Inr prices)"
  by pat_completeness auto
termination
  by (relation "measure (\<lambda>(w, tickers, i, prices). length tickers - i)") auto

declare fetchBatches.simps [simp del]

definition fetchTickerPrices :: "world \<Rightarrow> jsval list \<Rightarrow> (string \<rightharpoonup> string) result" where
  "fetchTickerPrices w tickers = fetchBatches w tickers 0 Map.empty"

section \<open>Contributions\<close>

record enriched =
  original :: row
  dailyChangeStr :: "string option"
  dailyChangePct :: jsnum
  contribution :: jsnum

text \<open>
  The body of \<open>filteredData.map((row, index) => ...)\<close>. \<open>prices[row['TICKER']]\<close> is a string
  or \<open>undefined\<close> (\<open>None\<close>); the empty string is falsy.
\<close>

definition enrich :: "(rat \<Rightarrow> string) \<Rightarrow> (string \<rightharpoonup> string) \<Rightarrow> row \<Rightarrow> enriched" where
  "enrich ns prices r =
     (let holdingsPct = PCT_HOLDINGS r;
          dcs = prices (ToString ns (TICKER r))
      in if dcs \<noteq> None \<and> dcs \<noteq> Some '''' \<and> dcs \<noteq> Some ''N/A'' then
           (let pct = js_div (parseFloat (remove1 CHR ''%'' (the dcs))) (Fin 100)
            in \<lparr>original = r, dailyChangeStr = dcs, dailyChangePct = pct,
                contribution = js_mul (ToNumber holdingsPct) pct\<rparr>)
         else \<lparr>original = r, dailyChangeStr = dcs, dailyChangePct = Fin 0, contribution = Fin 0\<rparr>)"

text \<open>
  \<open>dataWithContributions.sort((a, b) => b.contribution - a.contribution)\<close>.
  \<open>Array.prototype.sort\<close> is stable; a comparator result that is \<open>NaN\<close> counts as 0. It
  is modelled as the insertion sort that takes the elements from left to right and
  puts each before the first element that the comparator orders after it.
\<close>

definition compareContribution :: "enriched \<Rightarrow> enriched \<Rightarrow> jsnum" where
  "compareContribution a b = js_sub (contribution b) (contribution a)"

fun insert_by :: "('a \<Rightarrow> 'a \<Rightarrow> jsnum) \<Rightarrow> 'a \<Rightarrow> 'a list \<Rightarrow> 'a list" where
  "insert_by cmp x [] = [x]"
| "insert_by cmp x (y # ys) =
     (if js_lt (cmp x y) (Fin 0) then x # y # ys else y # insert_by cmp x ys)"

definition js_sort :: "('a \<Rightarrow> 'a \<Rightarrow> jsnum) \<Rightarrow> 'a list \<Rightarrow> 'a list" where
  "js_sort cmp xs = foldl (\<lambda>acc x. insert_by cmp x acc) [] xs"

definition dataWithContributions ::
  "(rat \<Rightarrow> string) \<Rightarrow> (string \<rightharpoonup> string) \<Rightarrow> row list \<Rightarrow> enriched list" where
  "dataWithContributions ns prices rows = js_sort compareContribution (map (enrich ns prices) rows)"

text \<open>\<open>dataWithContributions.reduce((sum, item) => sum + item.contribution, 0)\<close>\<close>

definition totalContribution :: "enriched list \<Rightarrow> jsnum" where
  "totalContribution items = foldl (\<lambda>sum item. js_add sum (contribution item)) (Fin 0) items"

section \<open>The table\<close>

text \<open>A formatted row is an object: its keys in the order of the literal, with their values.\<close>

type_synonym formatted = "(string \<times> jsval) list"

definition formatItem :: "(rat \<Rightarrow> string) \<Rightarrow> enriched \<Rightarrow> formatted" where
  "formatItem ns item =
     (let r = original item
      in [(''Date'', Str (formatDate ns (DATE r))),
          (''CUSIP'', js_or (CUSIP r) (Str '''')),
          (''Ticker'', js_or (TICKER r) (Str '''')),
          (''Description'', js_or (DESCRIPTION r) (Str '''')),
          (''Holdings %'', Str (formatPercent (PCT_HOLDINGS r))),
          (''Daily Change'',
             Str (if dailyChangeStr item \<noteq> None \<and> dailyChangeStr item \<noteq> Some ''''
                  then the (dailyChangeStr item) else ''N/A'')),
          (''Contribution'',
             Str (if dailyChangeStr item \<noteq> Some ''N/A''
                  then formatChangePercent (Num (js_mul (contribution item) (Fin 100)))
                  else ''N/A''))])"

definition cell_of :: "formatted \<Rightarrow> string \<Rightarrow> jsval" where
  "cell_of r header = (case map_of r header of Some v \<Rightarrow> v | None \<Rightarrow> Undefined)"

text \<open>One \<open><td>\<close> of a data row. \<open>cellValue.replace\<close> exists on a string only.\<close>

definition dataCell :: "(rat \<Rightarrow> string) \<Rightarrow> formatted \<Rightarrow> string \<Rightarrow> string result" where
  "dataCell ns r header =
     (let cellValue = cell_of r header
      in if (header = ''Daily Change'' \<or> header = ''Contribution'') \<and> truthy cellValue
            \<and> cellValue \<noteq> Str ''N/A''
         then
           (case cellValue of
              Str s \<Rightarrow>
                (let numericValue = parseFloat (remove1 CHR ''%'' s);
                     tdClass = (if js_lt (Fin 0) numericValue then '' class=\"positive-change\"''
                                else if js_lt numericValue (Fin 0) then '' class=\"negative-change\"''
                                else '''')
                 in Inr (''<td'' @ tdClass @ ''>'' @ s @ ''</td>\<newline>''))
            | _ \<Rightarrow> Inl (Error ''cellValue.replace is not a function''))
         else Inr (''<td>'' @ ToString ns cellValue @ ''</td>\<newline>''))"

text \<open>One \<open><tr>\<close>: the row at \<open>index\<close>, coloured by \<open>dataRows[index].original['PCT_HOLDINGS']\<close>.\<close>

definition dataRow ::
  "(rat \<Rightarrow> string) \<Rightarrow> string list \<Rightarrow> enriched list \<Rightarrow> nat \<Rightarrow> formatted \<Rightarrow> string result" where
  "dataRow ns headers dataRows index r =
     (if index < length dataRows then
        (let originalPercent = PCT_HOLDINGS (original (dataRows ! index));
             rowClass = (if js_lt (Fin 0) (ToNumber originalPercent) then ''positive-holding''
                         else if js_lt (ToNumber originalPercent) (Fin 0) then ''negative-holding''
                         else '''')
         in case all_results (map (dataCell ns r) headers) of
              Inl e \<Rightarrow> Inl e
            | Inr cells \<Rightarrow>
                Inr (''<tr'' @ (if rowClass \<noteq> '''' then '' class=\"'' @ rowClass @ ''\"'' else '''')
                       @ ''>\<newline>'' @ concat cells @ ''</tr>\<newline>''))
      else Inl (Error ''Cannot read properties of undefined''))"

definition totalCell :: "jsnum \<Rightarrow> nat \<Rightarrow> string \<Rightarrow> string" where
  "totalCell total' index header =
     (if header = ''Contribution'' then
        (let totalClass = (if js_lt (Fin 0) total' then ''positive-change''
                           else if js_lt total' (Fin 0) then ''negative-change'' else '''')
         in ''<td class=\"'' @ totalClass @ ''\">''
              @ formatChangePercent (Num (js_mul total' (Fin 100))) @ ''</td>\<newline>'')
      else if index = 0 then ''<td><strong>TOTAL</strong></td>\<newline>''
      else ''<td></td>\<newline>'')"

definition buildColorCodedTable ::
  "(rat \<Rightarrow> string) \<Rightarrow> formatted list \<Rightarrow> enriched list \<Rightarrow> jsnum \<Rightarrow> string result" where
  "buildColorCodedTable ns formattedRows dataRows total' =
     (if length formattedRows = 0 then Inr ''<p>No holdings with tickers found.</p>''
      else
        (let headers = map fst (hd formattedRows)
         in case all_results
                   (map (\<lambda>(index, r). dataRow ns headers dataRows index r)
                      (zip [0..<length formattedRows] formattedRows)) of
              Inl e \<Rightarrow> Inl e
            | Inr trs \<Rightarrow>
                Inr (''<table id=\"holdings-table\">\<newline>'' @ ''<thead><tr>\<newline>''
                     @ concat (map (\<lambda>header. ''<th>'' @ header @ ''</th>\<newline>'') headers)
                     @ ''</tr></thead>\<newline><tbody>\<newline>''
                     @ concat trs
                     @ ''<tr class=\"total-row\">\<newline>''
                     @ concat (map (\<lambda>(index, header). totalCell total' index header)
                                 (zip [0..<length headers] headers))
                     @ ''</tr>\<newline>''
                     @ ''</tbody>\<newline></table>'')))"

section \<open>The request handler\<close>

definition EXCEL_URL :: string where
  "EXCEL_URL = ''https://imgpfunds.com/wp-content/uploads/pdfs/holdings/DBMF-Holdings.xlsx''"

text \<open>
  The page: the template literal with its three holes, trimmed. The style sheet between
  \<open><style>\<close> and \<open></style>\<close> is fixed text; it is the parameter \<open>css\<close>.
\<close>

definition page_body :: "string \<Rightarrow> string \<Rightarrow> string \<Rightarrow> string" where
  "page_body css htmlTable now =
     ''<!DOCTYPE html>\<newline><html lang=\"en\">\<newline><head>\<newline>    <meta charset=\"UTF-8\">\<newline>    <meta name=\"viewport\" content=\"width=device-width, initial-scale=1.0\">\<newline>    <title>DBMF Holdings</title>\<newline>    <style>''
     @ css
     @ ''    </style>\<newline></head>\<newline><body>\<newline>    <div class=\"container\">\<newline>        <div class=\"header\">\<newline>            <h1>'' @ [CHR 0xF0, CHR 0x9F, CHR 0x93, CHR 0x8A] @ '' DBMF Holdings</h1>\<newline>        </div>\<newline>        <div class=\"table-container\">\<newline>            ''
     @ htmlTable
     @ ''\<newline>        </div>\<newline>        <div class=\"footer\">\<newline>            <p>Data source: <a href=\"''
     @ EXCEL_URL
     @ ''\" target=\"_blank\">DBMF-Holdings.xlsx</a></p>\<newline>            <p class=\"timestamp\">Last updated: ''
     @ now
     @ ''</p>\<newline>        </div>\<newline>    </div>\<newline></body>\<newline></html>''"

text \<open>The literal starts with a line break and ends with a line break and six spaces.\<close>

definition page :: "string \<Rightarrow> string \<Rightarrow> string \<Rightarrow> string" where
  "page css htmlTable now =
     js_trim (''\<newline>'' @ page_body css htmlTable now @ ''\<newline>      '')"

record http_response =
  http_status :: nat
  contentType :: string
  cacheControl :: "string option"
  content :: string

text \<open>The \<open>try\<close> block of \<open>fetch(request, env, ctx)\<close>: it returns a response or throws.\<close>

definition handler_try :: "string \<Rightarrow> world \<Rightarrow> http_response result" where
  "handler_try css w =
     (case excel w of
        Inl e \<Rightarrow> Inl e
      | Inr response \<Rightarrow>
          if \<not> ok response then
            Inr \<lparr>http_status = 500, contentType = ''text/plain'', cacheControl = None,
                 content = ''Failed to fetch Excel file: '' @ digits_of (status response) @ '' ''
                           @ statusText response\<rparr>
          else
            (case payload response of
               Inl e \<Rightarrow> Inl e
             | Inr jsonData \<Rightarrow>
                 (let filtered = filteredData (numstr w) jsonData;
                      tickers = map TICKER filtered
                  in case fetchTickerPrices w tickers of
                       Inl e \<Rightarrow> Inl e
                     | Inr prices \<Rightarrow>
                         (let items = dataWithContributions (numstr w) prices filtered;
                              formattedData = map (formatItem (numstr w)) items;
                              total' = totalContribution items
                          in case buildColorCodedTable (numstr w) formattedData items total' of
                               Inl e \<Rightarrow> Inl e
                             | Inr htmlTable \<Rightarrow>
                                 Inr \<lparr>http_status = 200,
                                      contentType = ''text/html;charset=UTF-8'',
                                      cacheControl = Some ''public, max-age=300'',
                                      content = page css htmlTable (utc_now w)\<rparr>))))"

text \<open>\<open>catch (error)\<close>: a 500 with the message of the error.\<close>

definition handler :: "string \<Rightarrow> world \<Rightarrow> http_response" where
  "handler css w =
     (case handler_try css w of
        Inr r \<Rightarrow> r
      | Inl e \<Rightarrow>
          \<lparr>http_status = 500, contentType = ''text/plain'', cacheControl = None,
           content = ''Error processing Excel file: '' @ message e\<rparr>)"

section \<open>The earlier worker, without quotes\<close>














section \<open>Notions the statements use\<close>

text \<open>A list of holdings is in non-increasing order: each contribution is \<open>>=\<close> every later one.\<close>

definition non_increasing :: "enriched list \<Rightarrow> bool" where
  "non_increasing items = sorted_wrt (\<lambda>a b. js_ge (contribution a) (contribution b)) items"

text \<open>The holdings of a list whose contribution is \<open>c\<close>, in the order of the list.\<close>

definition with_contribution :: "jsnum \<Rightarrow> enriched list \<Rightarrow> enriched list" where
  "with_contribution c items = filter (\<lambda>x. contribution x = c) items"

text \<open>
  The sum of a list of numbers, whatever the order of the additions: \<open>NaN\<close> when one of
  them is \<open>NaN\<close> or both infinities occur, an infinity when it occurs, and the sum of the
  (finite) values otherwise.
\<close>

fun finite_part :: "jsnum \<Rightarrow> rat" where
  "finite_part (Fin q) = q"
| "finite_part _ = 0"

definition sum_of :: "jsnum list \<Rightarrow> jsnum" where
  "sum_of ns =
     (if NaN \<in> set ns \<or> (PInf \<in> set ns \<and> NInf \<in> set ns) then NaN
      else if PInf \<in> set ns then PInf
      else if NInf \<in> set ns then NInf
      else Fin (sum_list (map finite_part ns)))"

text \<open>
  The ways a quote can fail. On the Yahoo path: the request fails, the status is not a
  success, the body cannot be read as JSON, the metadata is missing, or a price is
  falsy (absent, \<open>null\<close>, \<open>false\<close>, zero, \<open>NaN\<close> or the empty string). On the Barchart
  path: the request fails, the status is not a success, the body cannot be read, the page
  has no \<open>percentChange\<close> field, or its value is not a number.
\<close>

definition yahoo_fails :: "world \<Rightarrow> string \<Rightarrow> bool" where
  "yahoo_fails w symbol =
     (case yahoo w symbol of
        Inl e \<Rightarrow> True
      | Inr response \<Rightarrow>
          \<not> ok response \<or>
          (case payload response of
             Inl e \<Rightarrow> True
           | Inr data \<Rightarrow>
               (case chart_meta data of
                  None \<Rightarrow> True
                | Some m \<Rightarrow>
                    \<not> truthy (regularMarketPrice m) \<or>
                    \<not> truthy (js_or (chartPreviousClose m) (previousClose m)))))"

definition barchart_fails :: "world \<Rightarrow> string \<Rightarrow> bool" where
  "barchart_fails w symbol =
     (case barchart w symbol of
        Inl e \<Rightarrow> True
      | Inr response \<Rightarrow>
          \<not> ok response \<or>
          (case payload response of
             Inl e \<Rightarrow> True
           | Inr html \<Rightarrow>
               (case match_percentChange html of
                  None \<Rightarrow> True
                | Some v \<Rightarrow> parseFloat (remove1 CHR ''%'' v) = NaN)))"


text \<open>
  What a quote can be: \<open>N/A\<close> or a formatted number. \<open>quote_of\<close> is the string that
  \<open>fetchSinglePrice\<close> returns, and \<open>assign\<close> is one assignment \<open>prices[ticker] = ...\<close>.
\<close>

definition quote_string :: "string \<Rightarrow> bool" where
  "quote_string s = (s = ''N/A'' \<or> (\<exists>n. s = formatChangePercent (Num n)))"

definition quote_of :: "world \<Rightarrow> jsval \<Rightarrow> string" where
  "quote_of w ticker = projr (fetchSinglePrice w ticker)"

definition assign :: "world \<Rightarrow> (string \<rightharpoonup> string) \<Rightarrow> jsval \<Rightarrow> (string \<rightharpoonup> string)" where
  "assign w m ticker = m(ToString (numstr w) ticker \<mapsto> quote_of w ticker)"


section \<open>Example inputs\<close>

text \<open>Concrete rows, answers and worlds, at which the theorems below are instantiated.\<close>

definition plain_numstr :: "rat \<Rightarrow> string" where
  "plain_numstr q = ''0.5''"

definition down :: "string \<Rightarrow> 'a response result" where
  "down symbol = Inl (Error ''network'')"

definition not_found :: "row list response" where
  "not_found = \<lparr>status = 404, statusText = ''Not Found'', payload = Inl (Error ''not read'')\<rparr>"

definition world_404 :: world where
  "world_404 =
     \<lparr>yahoo = down, barchart = down, excel = Inr not_found, numstr = plain_numstr,
      utc_now = ''Thu, 01 Jan 2026 00:00:00 GMT''\<rparr>"

definition blank_row :: row where
  "blank_row =
     \<lparr>DATE = Num (Fin 20240115), CUSIP = Str ''912797'', TICKER = Str ''  '',
      DESCRIPTION = Str ''CASH'', SHARES = Num (Fin 100), BASE_MV = Num (Fin 100),
      PCT_HOLDINGS = Num (Fin (1 / 2))\<rparr>"




text \<open>A row of the sheet for a ticker and a weight, and a table of quotes.\<close>

definition holding :: "string \<Rightarrow> jsval \<Rightarrow> row" where
  "holding t pct =
     \<lparr>DATE = Num (Fin 20240115), CUSIP = Str ''000000'', TICKER = Str t,
      DESCRIPTION = Str ''FUTURE'', SHARES = Num (Fin 10), BASE_MV = Num (Fin 1000),
      PCT_HOLDINGS = pct\<rparr>"

definition quotes :: "string \<rightharpoonup> string" where
  "quotes = map_of [(''CLZ5'', ''+2.00%''), (''XYZ'', ''N/A''), (''GCZ5'', ''-1.00%''),
                    (''ABC'', ''N/A'')]"

definition four_items :: "enriched list" where
  "four_items =
     map (enrich plain_numstr quotes)
       [holding ''XYZ'' (Num (Fin (5 / 100))), holding ''CLZ5'' (Num (Fin (10 / 100))),
        holding ''ABC'' (Num (Fin (30 / 100))), holding ''GCZ5'' (Num (Fin (20 / 100)))]"

text \<open>The second row has a ticker and a quote, and an empty \<open>PCT_HOLDINGS\<close> cell.\<close>

definition unweighted_items :: "enriched list" where
  "unweighted_items =
     map (enrich plain_numstr quotes)
       [holding ''CLZ5'' (Num (Fin (10 / 100))), holding ''GCZ5'' Undefined]"

text \<open>Two holdings: one with the quote \<open>+2.00%\<close> and weight 0.10, one without a quote.\<close>

definition two_rows :: "row list" where
  "two_rows = [holding ''XYZ'' (Num (Fin (5 / 100))), holding ''CLZ5'' (Num (Fin (10 / 100)))]"



text \<open>
  A world with answers of every kind. On Yahoo: \<open>CL=F\<close> went from 100 to 102; \<open>GC=F\<close> has
  only the field \<open>previousClose\<close>; \<open>SI=F\<close> has both fields for the previous close and an
  error entry next to its prices; \<open>ZC=F\<close> has the price 0; \<open>KC=F\<close> went from 100 to
  1334.5; the price of \<open>PL=F\<close> is the string \<open>n/a\<close>; the body for \<open>NG=F\<close> is not JSON;
  \<open>HG=F\<close> is refused with status 429; \<open>ZW=F\<close> comes without metadata; any other symbol
  fails on the network. On Barchart: the page of \<open>DI\<close> has the field, the page of \<open>M0\<close>
  does not.
\<close>

definition chart_of :: "jsval \<Rightarrow> jsval \<Rightarrow> jsval \<Rightarrow> bool \<Rightarrow> chart response" where
  "chart_of c cpc pc err =
     \<lparr>status = 200, statusText = ''OK'',
      payload = Inr \<lparr>chart_meta = Some \<lparr>regularMarketPrice = c, chartPreviousClose = cpc,
                                         previousClose = pc\<rparr>,
                     chart_error = err\<rparr>\<rparr>"

definition market_yahoo :: "string \<Rightarrow> chart response result" where
  "market_yahoo symbol =
     (if symbol = ''CL=F'' then Inr (chart_of (Num (Fin 102)) (Num (Fin 100)) Undefined False)
      else if symbol = ''GC=F'' then Inr (chart_of (Num (Fin 99)) Undefined (Num (Fin 100)) False)
      else if symbol = ''SI=F'' then Inr (chart_of (Num (Fin 51)) (Num (Fin 50)) (Num (Fin 25)) True)
      else if symbol = ''ZC=F'' then Inr (chart_of (Num (Fin 0)) (Num (Fin 100)) Undefined False)
      else if symbol = ''KC=F'' then
        Inr (chart_of (Num (Fin (13345 / 10))) (Num (Fin 100)) Undefined False)
      else if symbol = ''PL=F'' then Inr (chart_of (Str ''n/a'') (Num (Fin 100)) Undefined False)
      else if symbol = ''NG=F'' then
        Inr \<lparr>status = 200, statusText = ''OK'', payload = Inl (Error ''Unexpected token'')\<rparr>
      else if symbol = ''HG=F'' then
        Inr \<lparr>status = 429, statusText = ''Too Many Requests'', payload = Inl (Error ''not read'')\<rparr>
      else if symbol = ''ZW=F'' then
        Inr \<lparr>status = 200, statusText = ''OK'',
             payload = Inr \<lparr>chart_meta = None, chart_error = True\<rparr>\<rparr>
      else Inl (Error ''network''))"

definition market_barchart :: "string \<Rightarrow> string response result" where
  "market_barchart symbol =
     (if symbol = ''DI'' then
        Inr \<lparr>status = 200, statusText = ''OK'',
             payload = Inr ''<script>{\"lastPrice\":\"2,400.5\",\"percentChange\":\"-0.54%\"}</script>''\<rparr>
      else if symbol = ''M0'' then
        Inr \<lparr>status = 200, statusText = ''OK'', payload = Inr ''<html>no quote</html>''\<rparr>
      else Inl (Error ''network''))"

definition market_rows :: "row list" where
  "market_rows =
     [holding ''XYZ'' (Num (Fin (5 / 100))), holding ''CLZ5'' (Num (Fin (10 / 100))), blank_row,
      holding ''MFSZ5'' (Num (Fin (- 20 / 100))), holding ''MESZ5'' (Num (Fin (10 / 100)))]"

definition market :: world where
  "market =
     \<lparr>yahoo = market_yahoo, barchart = market_barchart,
      excel = Inr \<lparr>status = 200, statusText = ''OK'', payload = Inr market_rows\<rparr>,
      numstr = plain_numstr, utc_now = ''Thu, 01 Jan 2026 00:00:00 GMT''\<rparr>"

text \<open>The rows of that sheet which the filter keeps, their quotes and the enriched holdings.\<close>

definition market_kept :: "row list" where
  "market_kept = filteredData (numstr market) market_rows"

definition market_prices :: "string \<rightharpoonup> string" where
  "market_prices = foldl (assign market) Map.empty (map TICKER market_kept)"

definition market_items :: "enriched list" where
  "market_items = dataWithContributions (numstr market) market_prices market_kept"

text \<open>A sheet with one holding of weight 0.10 in \<open>KC\<close>, and one with one holding in \<open>PL\<close>.\<close>

definition surge_rows :: "row list" where
  "surge_rows = [holding ''KCZ5'' (Num (Fin (10 / 100)))]"

definition surge_prices :: "string \<rightharpoonup> string" where
  "surge_prices = foldl (assign market) Map.empty (map TICKER surge_rows)"

definition surge_items :: "enriched list" where
  "surge_items = dataWithContributions (numstr market) surge_prices surge_rows"

definition garbled_rows :: "row list" where
  "garbled_rows = [holding ''PLZ5'' (Num (Fin (10 / 100)))]"

text \<open>
  The same world with a Barchart whose pages carry no number in the field, and the
  holdings of \<open>garbled_rows\<close> with the quotes of \<open>market\<close>.
\<close>

definition garbled_barchart :: "string \<Rightarrow> string response result" where
  "garbled_barchart symbol =
     Inr \<lparr>status = 200, statusText = ''OK'', payload = Inr ''{\"percentChange\":\"n/a\"}''\<rparr>"

definition garbled :: world where
  "garbled = market\<lparr>barchart := garbled_barchart\<rparr>"

definition garbled_prices :: "string \<rightharpoonup> string" where
  "garbled_prices = foldl (assign market) Map.empty (map TICKER garbled_rows)"

definition garbled_items :: "enriched list" where
  "garbled_items = dataWithContributions (numstr market) garbled_prices garbled_rows"


section \<open>Basic facts\<close>








section \<open>The spreadsheet cannot be fetched\<close>

text \<open>
  Claim C8. When the fetch of the spreadsheet returns a response whose status is not in
  200..299, the handler answers 500 with content type \<open>text/plain\<close> and the body
  \<open>Failed to fetch Excel file: <status> <statusText>\<close>. Nothing is parsed: the answer is the
  same whatever reading and parsing the body would give (\<open>payload response\<close> is
  arbitrary, an error included). For an upstream 404 the body holds \<open>404\<close>.
\<close>

theorem upstream_failure_is_500:
  assumes "excel w = Inr response" and "\<not> ok response"
  shows "handler css w =
           \<lparr>http_status = 500, contentType = ''text/plain'', cacheControl = None,
            content = ''Failed to fetch Excel file: '' @ digits_of (status response) @ '' ''
                      @ statusText response\<rparr>"
  using assms by (simp add: handler_def handler_try_def)

theorem upstream_failure_is_500_witness:
  "excel world_404 = Inr not_found \<and> \<not> ok not_found
   \<and> handler '''' world_404 =
       \<lparr>http_status = 500, contentType = ''text/plain'', cacheControl = None,
        content = ''Failed to fetch Excel file: 404 Not Found''\<rparr>"
proof -
  have e: "excel world_404 = Inr not_found"
    by (simp add: world_404_def)
  have n: "\<not> ok not_found"
    by (simp add: ok_def not_found_def)
  have d: "digits_of (status not_found) = ''404''" and t: "statusText not_found = ''Not Found''"
    by (simp_all add: not_found_def digits_of.simps digit_char_def)
  show ?thesis
    using upstream_failure_is_500 [OF e n, of "''''"] e n d t by simp
qed

section \<open>No holding has a ticker\<close>



section \<open>Sorting by contribution\<close>

lemma js_lt_sub: "a \<noteq> NaN \<Longrightarrow> b \<noteq> NaN \<Longrightarrow> js_lt (js_sub a b) (Fin 0) = js_lt a b"
  by (cases a; cases b) (simp_all add: js_sub_def)

lemma js_lt_trans: "js_lt a b \<Longrightarrow> js_lt b c \<Longrightarrow> js_lt a c"
  by (cases a; cases b; cases c) simp_all

lemma js_lt_irrefl: "\<not> js_lt a a"
  by (cases a) simp_all

lemma js_ge_trans_lt: "js_ge a b \<Longrightarrow> js_lt a c \<Longrightarrow> js_lt b c"
  by (cases a; cases b; cases c) (simp_all add: js_ge_def)

lemma js_ge_trans: "js_ge a b \<Longrightarrow> js_ge b c \<Longrightarrow> js_ge a c"
  by (cases a; cases b; cases c) (simp_all add: js_ge_def)

lemma js_ge_iff: "a \<noteq> NaN \<Longrightarrow> b \<noteq> NaN \<Longrightarrow> js_ge a b = (\<not> js_lt a b)"
  by (simp add: js_ge_def)

lemma set_insert_by: "set (insert_by cmp x ys) = insert x (set ys)"
  by (induction ys) auto

lemma mset_insert_by: "mset (insert_by cmp x ys) = add_mset x (mset ys)"
  by (induction ys) auto

lemma non_increasing_insert_by:
  assumes "contribution x \<noteq> NaN" and "NaN \<notin> contribution ` set ys" and "non_increasing ys"
  shows "non_increasing (insert_by compareContribution x ys)"
  using assms(2,3)
proof (induction ys)
  case Nil
  then show ?case by (simp add: non_increasing_def)
next
  case (Cons y ys)
  have y: "contribution y \<noteq> NaN"
    using Cons.prems(1) by auto
  have cmp: "js_lt (compareContribution x y) (Fin 0) = js_lt (contribution y) (contribution x)"
    using assms(1) y by (simp add: compareContribution_def js_lt_sub)
  show ?case
  proof (cases "js_lt (contribution y) (contribution x)")
    case True
    have "js_ge (contribution x) (contribution z)" if "z \<in> set (y # ys)" for z
    proof -
      have z: "contribution z \<noteq> NaN"
        using Cons.prems(1) that by (metis imageI)
      have "js_ge (contribution y) (contribution z)"
        using that Cons.prems(2) y by (auto simp: non_increasing_def js_ge_def js_lt_irrefl)
      then have "js_lt (contribution z) (contribution x)"
        using True js_ge_trans_lt by blast
      then show ?thesis
        using assms(1) z
        by (cases "contribution x"; cases "contribution z") (simp_all add: js_ge_def)
    qed
    then show ?thesis
      using True Cons.prems(2) cmp by (simp add: non_increasing_def)
  next
    case False
    have "non_increasing (insert_by compareContribution x ys)"
      using Cons by (auto simp: non_increasing_def)
    moreover have "js_ge (contribution y) (contribution x)"
      using False assms(1) y by (simp add: js_ge_def)
    ultimately show ?thesis
      using False Cons.prems(2) cmp by (simp add: non_increasing_def set_insert_by)
  qed
qed

lemma with_contribution_insert_by:
  assumes "contribution x \<noteq> NaN" and "NaN \<notin> contribution ` set ys" and "non_increasing ys"
  shows "with_contribution c (insert_by compareContribution x ys)
           = with_contribution c ys @ with_contribution c [x]"
  using assms(2,3)
proof (induction ys)
  case Nil
  then show ?case by (simp add: with_contribution_def)
next
  case (Cons y ys)
  have y: "contribution y \<noteq> NaN"
    using Cons.prems(1) by auto
  have cmp: "js_lt (compareContribution x y) (Fin 0) = js_lt (contribution y) (contribution x)"
    using assms(1) y by (simp add: compareContribution_def js_lt_sub)
  show ?case
  proof (cases "js_lt (contribution y) (contribution x)")
    case True
    have "contribution z \<noteq> contribution x" if "z \<in> set (y # ys)" for z
    proof -
      have "js_ge (contribution y) (contribution z)"
        using that Cons.prems(2) y by (auto simp: non_increasing_def js_ge_def js_lt_irrefl)
      then have "js_lt (contribution z) (contribution x)"
        using True js_ge_trans_lt by blast
      then show ?thesis
        using js_lt_irrefl by auto
    qed
    then have "contribution x = c \<Longrightarrow> with_contribution c (y # ys) = []"
      unfolding with_contribution_def by (auto simp: filter_empty_conv)
    then show ?thesis
      using True cmp by (auto simp: with_contribution_def)
  next
    case False
    have "with_contribution c (insert_by compareContribution x ys)
            = with_contribution c ys @ with_contribution c [x]"
      using Cons by (auto simp: non_increasing_def)
    then show ?thesis
      using False cmp by (simp add: with_contribution_def)
  qed
qed

lemma js_sort_foldl:
  assumes "NaN \<notin> contribution ` set xs" and "NaN \<notin> contribution ` set acc" and "non_increasing acc"
  shows "non_increasing (foldl (\<lambda>acc x. insert_by compareContribution x acc) acc xs)
         \<and> with_contribution c (foldl (\<lambda>acc x. insert_by compareContribution x acc) acc xs)
             = with_contribution c acc @ with_contribution c xs"
  using assms
proof (induction xs arbitrary: acc)
  case Nil
  then show ?case by (simp add: with_contribution_def)
next
  case (Cons x xs)
  have x: "contribution x \<noteq> NaN"
    using Cons.prems(1) by auto
  have s: "non_increasing (insert_by compareContribution x acc)"
    using x Cons.prems by (intro non_increasing_insert_by)
  have n: "NaN \<notin> contribution ` set (insert_by compareContribution x acc)"
    using x Cons.prems(2) by (auto simp: set_insert_by)
  have f: "with_contribution c (insert_by compareContribution x acc)
             = with_contribution c acc @ with_contribution c [x]"
    using x Cons.prems by (intro with_contribution_insert_by)
  have xs: "NaN \<notin> contribution ` set xs"
    using Cons.prems(1) by auto
  show ?case
    using Cons.IH [OF xs n s] f by (simp add: with_contribution_def)
qed

lemma mset_js_sort: "mset (js_sort cmp xs) = mset xs"
proof -
  have "mset (foldl (\<lambda>acc x. insert_by cmp x acc) acc xs) = mset acc + mset xs" for acc
    by (induction xs arbitrary: acc) (simp_all add: mset_insert_by)
  then show ?thesis
    by (simp add: js_sort_def)
qed

text \<open>
  Claim C2, amended. For every list of enriched holdings none of whose contributions is
  \<open>NaN\<close>: after the sort the contributions are in non-increasing order, the holdings
  of any one contribution stand in the order they had before (the sort is stable), and
  the sorted list holds the same holdings as the list before.
\<close>

theorem sort_by_contribution:
  assumes "NaN \<notin> set (map contribution items)"
  shows "non_increasing (js_sort compareContribution items)
         \<and> with_contribution c (js_sort compareContribution items) = with_contribution c items
         \<and> mset (js_sort compareContribution items) = mset items"
proof -
  have "NaN \<notin> contribution ` set items"
    using assms by simp
  then show ?thesis
    using js_sort_foldl [of items "[]" c]
    by (simp add: js_sort_def [symmetric] mset_js_sort non_increasing_def with_contribution_def)
qed


theorem sort_by_contribution_witness:
  "NaN \<notin> set (map contribution four_items)
   \<and> map (TICKER \<circ> original) four_items = [Str ''XYZ'', Str ''CLZ5'', Str ''ABC'', Str ''GCZ5'']
   \<and> map contribution four_items = [Fin 0, Fin (1 / 500), Fin 0, Fin (- 1 / 500)]
   \<and> map (TICKER \<circ> original) (js_sort compareContribution four_items)
       = [Str ''CLZ5'', Str ''XYZ'', Str ''ABC'', Str ''GCZ5'']
   \<and> non_increasing (js_sort compareContribution four_items)
   \<and> with_contribution (Fin 0) (js_sort compareContribution four_items)
       = with_contribution (Fin 0) four_items"
proof -
  have h: "NaN \<notin> set (map contribution four_items)"
    by code_simp
  have a: "map (TICKER \<circ> original) four_items = [Str ''XYZ'', Str ''CLZ5'', Str ''ABC'', Str ''GCZ5'']"
    by code_simp
  have b: "map contribution four_items = [Fin 0, Fin (1 / 500), Fin 0, Fin (- 1 / 500)]"
    by code_simp
  have c: "map (TICKER \<circ> original) (js_sort compareContribution four_items)
             = [Str ''CLZ5'', Str ''XYZ'', Str ''ABC'', Str ''GCZ5'']"
    by code_simp
  show ?thesis
    using sort_by_contribution [OF h, of "Fin 0"] h a b c by simp
qed

text \<open>
  The claim as stated fails where a contribution is \<open>NaN\<close>: a row with a quote and an
  empty \<open>PCT_HOLDINGS\<close> cell has the contribution \<open>undefined * 0.02\<close>. The comparator then
  returns \<open>NaN\<close>, and no order of the two holdings is non-increasing.
\<close>

theorem sort_by_contribution_counterexample:
  "map contribution (js_sort compareContribution unweighted_items) = [Fin (1 / 500), NaN]
   \<and> \<not> non_increasing (js_sort compareContribution unweighted_items)
   \<and> \<not> non_increasing (rev (js_sort compareContribution unweighted_items))"
  by code_simp

section \<open>The fund total\<close>

lemma js_add_assoc: "js_add (js_add a b) c = js_add a (js_add b c)"
  by (cases a; cases b; cases c) simp_all

lemma js_add_zero: "js_add (Fin 0) a = a"
  by (cases a) simp_all

lemma sum_of_Nil: "sum_of [] = Fin 0"
  by (simp add: sum_of_def)

lemma sum_of_Cons: "sum_of (n # ns) = js_add n (sum_of ns)"
  by (cases n) (auto simp: sum_of_def)

lemma foldl_js_add: "foldl js_add a ns = js_add a (sum_of ns)"
proof (induction ns arbitrary: a)
  case Nil
  then show ?case by (cases a) (simp_all add: sum_of_Nil)
next
  case (Cons n ns)
  then show ?case by (simp add: sum_of_Cons js_add_assoc)
qed

lemma totalContribution_sum: "totalContribution items = sum_of (map contribution items)"
proof -
  have "totalContribution items = foldl js_add (Fin 0) (map contribution items)"
    by (simp add: totalContribution_def foldl_map)
  then show ?thesis
    by (simp add: foldl_js_add js_add_zero)
qed

lemma sum_of_mset:
  assumes "mset xs = mset ys"
  shows "sum_of xs = sum_of ys"
proof -
  have "set xs = set ys"
    using assms by (rule mset_eq_setD)
  moreover have "sum_list (map finite_part xs) = sum_list (map finite_part ys)"
  proof -
    have "sum_mset (mset (map finite_part xs)) = sum_mset (mset (map finite_part ys))"
      using assms by (metis mset_map)
    then show ?thesis
      by (simp only: sum_mset_sum_list)
  qed
  ultimately show ?thesis
    by (simp add: sum_of_def)
qed


text \<open>
  Claim C6. The fund total, which the code adds up from 0 over the sorted list, is the
  sum of the contributions of all the holdings: of every enriched holding of the list
  and so, in the pipeline, of every filtered row, none left out. A holding whose quote
  is \<open>N/A\<close> is one of the summands, with the contribution 0.
\<close>

theorem total_is_sum_of_contributions:
  "totalContribution items = sum_of (map contribution items)
   \<and> totalContribution (dataWithContributions ns prices rows)
       = sum_of (map (\<lambda>r. contribution (enrich ns prices r)) rows)
   \<and> length (dataWithContributions ns prices rows) = length rows
   \<and> (prices (ToString ns (TICKER r)) = Some ''N/A'' \<longrightarrow> contribution (enrich ns prices r) = Fin 0)"
proof -
  have "mset (dataWithContributions ns prices rows) = mset (map (enrich ns prices) rows)"
    by (simp only: dataWithContributions_def mset_js_sort)
  then have "mset (map contribution (dataWithContributions ns prices rows))
          = mset (map contribution (map (enrich ns prices) rows))"
    by (metis mset_map)
  then have "sum_of (map contribution (dataWithContributions ns prices rows))
               = sum_of (map contribution (map (enrich ns prices) rows))"
    by (rule sum_of_mset)
  moreover have "length (dataWithContributions ns prices rows) = length rows"
    by (metis dataWithContributions_def mset_js_sort size_mset length_map)
  ultimately show ?thesis
    by (simp add: totalContribution_sum enrich_def comp_def)
qed

theorem total_is_sum_of_contributions_witness:
  "map (\<lambda>r. contribution (enrich plain_numstr quotes r)) two_rows = [Fin 0, Fin (1 / 500)]
   \<and> quotes (ToString plain_numstr (TICKER (holding ''XYZ'' (Num (Fin (5 / 100)))))) = Some ''N/A''
   \<and> map (TICKER \<circ> original) (dataWithContributions plain_numstr quotes two_rows)
       = [Str ''CLZ5'', Str ''XYZ'']
   \<and> totalContribution (dataWithContributions plain_numstr quotes two_rows) = Fin (1 / 500)"
proof -
  have a: "map (\<lambda>r. contribution (enrich plain_numstr quotes r)) two_rows = [Fin 0, Fin (1 / 500)]"
    by code_simp
  have b: "quotes (ToString plain_numstr (TICKER (holding ''XYZ'' (Num (Fin (5 / 100)))))) = Some ''N/A''"
    by code_simp
  have c: "map (TICKER \<circ> original) (dataWithContributions plain_numstr quotes two_rows)
             = [Str ''CLZ5'', Str ''XYZ'']"
    by code_simp
  have "sum_of [Fin 0, Fin (1 / 500)] = Fin (1 / 500)"
    by (simp add: sum_of_def)
  then show ?thesis
    using total_is_sum_of_contributions
      [of "[]" plain_numstr quotes two_rows "holding ''XYZ'' (Num (Fin (5 / 100)))"] a b c
    by simp
qed


section \<open>Symbol resolution\<close>

lemma lazy_contract_digit:
  "lazy_contract p s = Some m \<Longrightarrow> s \<noteq> [] \<and> is_digit (last s)"
proof (induction s arbitrary: p)
  case Nil
  then show ?case by simp
next
  case (Cons c cs)
  show ?case
  proof (cases "p \<noteq> [] \<and> is_upper c \<and> cs \<noteq> [] \<and> list_all is_digit cs")
    case True
    then have "is_digit (last cs)"
      by (simp add: list_all_iff)
    then show ?thesis
      using True by simp
  next
    case False
    then have "lazy_contract (p @ [c]) cs = Some m"
      using Cons.prems by (auto split: if_splits)
    then have "cs \<noteq> [] \<and> is_digit (last cs)"
      by (rule Cons.IH)
    then show ?thesis
      by simp
  qed
qed

lemma match_contract_None:
  assumes "t = [] \<or> \<not> is_digit (last t)"
  shows "match_contract t = None"
proof (cases "match_contract t")
  case None
  then show ?thesis .
next
  case (Some m)
  then show ?thesis
    using assms lazy_contract_digit [of "[]" t m] by (auto simp: match_contract_def)
qed

lemma match_contract_no_letter:
  assumes "takeWhile is_upper t = []"
  shows "match_contract t = None"
  using assms by (cases t) (auto simp: match_contract_def split: if_splits)

lemma fetchSinglePrice_try_resolve:
  "fetchSinglePrice_try w (Str t) =
     (case resolve t of Barchart r \<Rightarrow> fetchBarchartPrice w r | Yahoo s \<Rightarrow> yahooQuote w s)"
  by (simp add: fetchSinglePrice_try_def resolve_def)

text \<open>
  Claim C3, amended. \<open>CLZ5\<close> goes to the Yahoo symbol \<open>CL=F\<close>, \<open>MFSZ5\<close> to the Barchart
  root \<open>DI\<close>, \<open>MESZ5\<close> to the Barchart root \<open>M0\<close>. A ticker without a trailing digit that
  starts with capitals has the Yahoo symbol "its longest leading run of capitals, then
  \<open>=F\<close>", and goes to Yahoo with it unless the run is \<open>MFS\<close> or \<open>MES\<close>: these go to the
  Barchart roots \<open>DI\<close> and \<open>M0\<close>. A ticker that does not start with a capital goes to Yahoo
  unchanged. \<open>resolve\<close> is the routing of \<open>fetchSinglePrice\<close>.
\<close>

theorem symbol_resolution:
  "resolve ''CLZ5'' = Yahoo ''CL=F''
   \<and> resolve ''MFSZ5'' = Barchart ''DI''
   \<and> resolve ''MESZ5'' = Barchart ''M0''
   \<and> ((t = [] \<or> \<not> is_digit (last t)) \<and> takeWhile is_upper t \<noteq> [] \<longrightarrow>
        convertToYahooSymbol t = takeWhile is_upper t @ ''=F''
        \<and> resolve t =
            (if takeWhile is_upper t = ''MFS'' then Barchart ''DI''
             else if takeWhile is_upper t = ''MES'' then Barchart ''M0''
             else Yahoo (takeWhile is_upper t @ ''=F'')))
   \<and> (takeWhile is_upper t = [] \<longrightarrow> resolve t = Yahoo t)
   \<and> fetchSinglePrice_try w (Str t) =
       (case resolve t of Barchart r \<Rightarrow> fetchBarchartPrice w r | Yahoo s \<Rightarrow> yahooQuote w s)"
proof -
  have a: "resolve ''CLZ5'' = Yahoo ''CL=F''" by code_simp
  have b: "resolve ''MFSZ5'' = Barchart ''DI''" by code_simp
  have c: "resolve ''MESZ5'' = Barchart ''M0''" by code_simp
  have d: "convertToYahooSymbol t = takeWhile is_upper t @ ''=F''
        \<and> resolve t =
            (if takeWhile is_upper t = ''MFS'' then Barchart ''DI''
             else if takeWhile is_upper t = ''MES'' then Barchart ''M0''
             else Yahoo (takeWhile is_upper t @ ''=F''))"
    if "t = [] \<or> \<not> is_digit (last t)" and "takeWhile is_upper t \<noteq> []"
    using that match_contract_None [of t]
    by (simp add: resolve_def commodityPrefix_def convertToYahooSymbol_def match_letters_def)
  have e: "resolve t = Yahoo t" if "takeWhile is_upper t = []"
  proof -
    have "takeWhile is_upper ''MFS'' \<noteq> []" and "takeWhile is_upper ''MES'' \<noteq> []"
      by (simp_all add: is_upper_def)
    then have "t \<noteq> ''MFS''" and "t \<noteq> ''MES''"
      using that by auto
    then show ?thesis
      using that match_contract_no_letter [of t]
      by (simp add: resolve_def commodityPrefix_def convertToYahooSymbol_def match_letters_def)
  qed
  show ?thesis
    using a b c d e fetchSinglePrice_try_resolve by blast
qed

theorem symbol_resolution_witness:
  "\<not> is_digit (last ''ABC'') \<and> takeWhile is_upper ''ABC'' = ''ABC''
   \<and> convertToYahooSymbol ''ABC'' = ''ABC=F'' \<and> resolve ''ABC'' = Yahoo ''ABC=F''
   \<and> takeWhile is_upper ''7203'' = [] \<and> resolve ''7203'' = Yahoo ''7203''
   \<and> resolve ''CLZ5'' = Yahoo ''CL=F''"
proof -
  have a: "\<not> is_digit (last ''ABC'')" and b: "takeWhile is_upper ''ABC'' = ''ABC''"
    and c: "takeWhile is_upper ''7203'' = []"
    by (simp_all add: is_digit_def is_upper_def)
  have "convertToYahooSymbol ''ABC'' = ''ABC=F'' \<and> resolve ''ABC'' = Yahoo ''ABC=F''"
    using symbol_resolution [of "''ABC''"] a b by simp
  moreover have "resolve ''7203'' = Yahoo ''7203''"
    using symbol_resolution [of "''7203''"] c by simp
  moreover have "resolve ''CLZ5'' = Yahoo ''CL=F''"
    using symbol_resolution [of "''ABC''"] by simp
  ultimately show ?thesis
    using a b c by simp
qed

text \<open>
  The claim as stated fails at the ticker \<open>MFS\<close>: it has no trailing digit and its leading
  run of capitals is \<open>MFS\<close>, but it goes to Barchart, not to Yahoo with \<open>MFS=F\<close>.
\<close>

theorem symbol_resolution_counterexample:
  "\<not> is_digit (last ''MFS'') \<and> takeWhile is_upper ''MFS'' = ''MFS''
   \<and> resolve ''MFS'' = Barchart ''DI'' \<and> resolve ''MFS'' \<noteq> Yahoo ''MFS=F''"
  by code_simp

section \<open>The filter on the ticker\<close>






section \<open>Formatting\<close>

lemma digits_of_0: "digits_of 0 = ''0''"
  by (simp add: digits_of.simps digit_char_def)

lemma ToString_falsy_length: "\<not> truthy v \<Longrightarrow> length (ToString ns v) \<noteq> 8"
proof (cases v)
  case (Num n)
  assume "\<not> truthy v"
  then have "n = NaN \<or> n = Fin 0"
    using Num by auto
  then show ?thesis
    using Num by (auto simp: Number_toString_def digits_of_0)
next
  case (Bool b)
  assume "\<not> truthy v"
  then show ?thesis
    using Bool by simp
next
  case (Str s)
  assume "\<not> truthy v"
  then show ?thesis
    using Str by simp
qed simp_all

lemma fixed2_eq:
  "nat \<lfloor>\<bar>q\<bar> * 100 + 1 / 2\<rfloor> = n \<Longrightarrow>
     fixed2 q = grouped (n div 100) @ ''.'' @ [digit_char (n mod 100 div 10), digit_char (n mod 10)]"
  by (simp add: fixed2_def Let_def)

lemma digit_char_digit: "d < 10 \<Longrightarrow> is_digit (digit_char d)"
proof -
  assume "d < 10"
  then have "d \<in> {0, 1, 2, 3, 4, 5, 6, 7, 8, 9}"
    by auto
  then show ?thesis
    by (auto simp: digit_char_def is_digit_def)
qed

lemma percent_123:
  assumes "1225 / 100000 \<le> q" and "q < 1235 / 100000"
  shows "formatPercent (Num (Fin q)) = ''1.23%''"
proof -
  have "\<lfloor>\<bar>q * 100\<bar> * 100 + 1 / 2\<rfloor> = 123"
    using assms by (simp add: floor_eq_iff abs_if)
  then have "nat \<lfloor>\<bar>q * 100\<bar> * 100 + 1 / 2\<rfloor> = 123"
    by simp
  then have "fixed2 (q * 100) = ''1.23''"
    by (simp add: fixed2_eq grouped.simps digits_of.simps digit_char_def)
  then show ?thesis
    using assms by (simp add: formatPercent_def format_percent_def)
qed

lemma change_054:
  assumes "- 545 / 1000 < q" and "q \<le> - 535 / 1000"
  shows "formatChangePercent (Num (Fin q)) = ''-0.54%''"
proof -
  have "\<lfloor>\<bar>q\<bar> * 100 + 1 / 2\<rfloor> = 54"
    using assms by (simp add: floor_eq_iff abs_if)
  then have "nat \<lfloor>\<bar>q\<bar> * 100 + 1 / 2\<rfloor> = 54"
    by simp
  then have "fixed2 q = ''0.54''"
    by (simp add: fixed2_eq grouped.simps digits_of.simps digit_char_def)
  then show ?thesis
    using assms by (simp add: formatChangePercent_def format_signed_def)
qed



lemma formatDate_8:
  assumes "length (ToString ns v) = 8"
  shows "formatDate ns v = take 4 (ToString ns v) @ ''-'' @ take 2 (drop 4 (ToString ns v)) @ ''-''
                        @ drop 6 (ToString ns v)"
proof -
  have "truthy v"
    using assms ToString_falsy_length [of v ns] by blast
  moreover have "take 2 (drop 6 (ToString ns v)) = drop 6 (ToString ns v)"
    using assms by simp
  ultimately show ?thesis
    using assms by (simp add: formatDate_def slice_def Let_def)
qed

lemma digits_20240115: "digits_of 20240115 = ''20240115''"
  by (simp add: digits_of.simps digit_char_def)

lemma formatDate_example: "formatDate ns (Num (Fin 20240115)) = ''2024-01-15''"
  by (simp add: formatDate_def Number_toString_def digits_20240115 slice_def)

lemma formatChangePercent_shape:
  "\<exists>i d e. formatChangePercent (Num (Fin x))
        = (if x < 0 then ''-'' else ''+'') @ i @ ''.'' @ [d, e] @ ''%'' \<and> is_digit d \<and> is_digit e"
proof -
  define n where "n = nat \<lfloor>\<bar>x\<bar> * 100 + 1 / 2\<rfloor>"
  have "fixed2 x = grouped (n div 100) @ ''.'' @ [digit_char (n mod 100 div 10), digit_char (n mod 10)]"
    by (simp add: fixed2_eq n_def)
  moreover have "is_digit (digit_char (n mod 100 div 10))" and "is_digit (digit_char (n mod 10))"
    by (simp_all add: digit_char_digit div_less_iff_less_mult)
  ultimately show ?thesis
    by (auto simp: formatChangePercent_def format_signed_def)
qed


text \<open>
  Claim C9, amended. A raw date whose string form has exactly 8 characters is written
  as its first four characters, a hyphen, the next two, a hyphen and the last two; the
  number 20240115 gives \<open>2024-01-15\<close>. Any other raw date that is truthy passes through
  as its string form; a falsy one (an empty cell, 0, \<open>false\<close>, the empty string) gives the
  empty string. The weight 0.0123 is written \<open>1.23%\<close> and the change -0.54 is written
  \<open>-0.54%\<close>, and so is every number that rounds to them; a change is always written with
  its sign, two fraction digits and \<open>%\<close>.
\<close>

theorem formatting:
  "(length (ToString ns v) = 8 \<longrightarrow>
      formatDate ns v = take 4 (ToString ns v) @ ''-'' @ take 2 (drop 4 (ToString ns v)) @ ''-''
                        @ drop 6 (ToString ns v))
   \<and> formatDate ns (Num (Fin 20240115)) = ''2024-01-15''
   \<and> (truthy v \<and> length (ToString ns v) \<noteq> 8 \<longrightarrow> formatDate ns v = ToString ns v)
   \<and> (\<not> truthy v \<longrightarrow> formatDate ns v = '''')
   \<and> (1225 / 100000 \<le> p \<and> p < 1235 / 100000 \<longrightarrow> formatPercent (Num (Fin p)) = ''1.23%'')
   \<and> (- 545 / 1000 < q \<and> q \<le> - 535 / 1000 \<longrightarrow> formatChangePercent (Num (Fin q)) = ''-0.54%'')
   \<and> (\<exists>i d e. formatChangePercent (Num (Fin x))
         = (if x < 0 then ''-'' else ''+'') @ i @ ''.'' @ [d, e] @ ''%'' \<and> is_digit d \<and> is_digit e)"
proof -
  have c: "formatDate ns v = ToString ns v" if "truthy v" and "length (ToString ns v) \<noteq> 8"
    using that by (simp add: formatDate_def Let_def)
  have d: "formatDate ns v = ''''" if "\<not> truthy v"
    using that by (simp add: formatDate_def)
  show ?thesis
    using formatDate_8 [of ns v] formatDate_example [of ns] c d percent_123 [of p]
      change_054 [of q] formatChangePercent_shape [of x]
    by blast
qed

theorem formatting_witness:
  "length (ToString plain_numstr (Num (Fin 20240115))) = 8
   \<and> formatDate plain_numstr (Num (Fin 20240115)) = ''2024-01-15''
   \<and> truthy (Str ''15/01/2024'') \<and> length (ToString plain_numstr (Str ''15/01/2024'')) = 10
   \<and> formatDate plain_numstr (Str ''15/01/2024'') = ''15/01/2024''
   \<and> \<not> truthy Undefined \<and> formatDate plain_numstr Undefined = ''''
   \<and> formatPercent (Num (Fin (123 / 10000))) = ''1.23%''
   \<and> formatChangePercent (Num (Fin (- 54 / 100))) = ''-0.54%''"
proof -
  have a: "length (ToString plain_numstr (Num (Fin 20240115))) = 8"
    by (simp add: Number_toString_def digits_20240115)
  have b: "truthy (Str ''15/01/2024'')" and c: "length (ToString plain_numstr (Str ''15/01/2024'')) = 10"
    and d: "\<not> truthy Undefined"
    by simp_all
  have e: "(1225 :: rat) / 100000 \<le> 123 / 10000 \<and> (123 :: rat) / 10000 < 1235 / 100000"
    and f: "- (545 :: rat) / 1000 < - 54 / 100 \<and> - (54 :: rat) / 100 \<le> - 535 / 1000"
    by simp_all
  have "formatDate plain_numstr (Num (Fin 20240115)) = ''2024-01-15''"
    and "formatPercent (Num (Fin (123 / 10000))) = ''1.23%''"
    and "formatChangePercent (Num (Fin (- 54 / 100))) = ''-0.54%''"
    using formatting [of plain_numstr "Num (Fin 20240115)" "123 / 10000" "- 54 / 100"] e f
    by blast+
  moreover have "formatDate plain_numstr (Str ''15/01/2024'') = ''15/01/2024''"
    using formatting [of plain_numstr "Str ''15/01/2024''"] b c by simp
  moreover have "formatDate plain_numstr Undefined = ''''"
    using formatting [of plain_numstr Undefined] d by blast
  ultimately show ?thesis
    using a b c d by simp
qed

text \<open>
  The claim as stated fails at the raw date 0: its string form \<open>0\<close> has one character,
  and the date does not pass through, it is written as the empty string.
\<close>

theorem formatting_counterexample:
  "ToString plain_numstr (Num (Fin 0)) = ''0''
   \<and> length (ToString plain_numstr (Num (Fin 0))) \<noteq> 8
   \<and> formatDate plain_numstr (Num (Fin 0)) = ''''"
  by (simp add: Number_toString_def digits_of_0 formatDate_def)


section \<open>Quotes\<close>

subsection \<open>A quote never throws\<close>

lemma catch_NA_Inr: "catch_NA r = Inr (case r of Inl e \<Rightarrow> ''N/A'' | Inr s \<Rightarrow> s)"
  by (simp add: catch_NA_def split: sum.splits)

lemma formatChangePercent_Num_nonempty: "formatChangePercent (Num n) \<noteq> ''''"
  by (simp add: formatChangePercent_def)

lemma quote_string_nonempty: "quote_string s \<Longrightarrow> s \<noteq> ''''"
  unfolding quote_string_def using formatChangePercent_Num_nonempty by (metis list.distinct(1))

lemma fetchBarchartPrice_quote: "\<exists>s. fetchBarchartPrice w r = Inr s \<and> quote_string s"
  by (auto simp: fetchBarchartPrice_def fetchBarchartPrice_try_def catch_NA_def quote_string_def
      Let_def split: sum.splits option.splits)

lemma yahooQuote_quote: "yahooQuote w symbol = Inr s \<Longrightarrow> quote_string s"
  by (auto simp: yahooQuote_def quote_string_def Let_def split: sum.splits option.splits if_splits)

lemma fetchSinglePrice_quote: "\<exists>s. fetchSinglePrice w ticker = Inr s \<and> quote_string s"
proof (cases "fetchSinglePrice_try w ticker")
  case (Inl e)
  then show ?thesis
    by (simp add: fetchSinglePrice_def catch_NA_def quote_string_def)
next
  case (Inr s)
  have "quote_string s"
  proof (cases ticker)
    case (Str t)
    then show ?thesis
      using Inr fetchBarchartPrice_quote [of w "''DI''"] fetchBarchartPrice_quote [of w "''M0''"]
        yahooQuote_quote [of w "convertToYahooSymbol t" s]
      by (auto simp: fetchSinglePrice_try_def split: if_splits)
  qed (use Inr in \<open>simp_all add: fetchSinglePrice_try_def\<close>)
  then show ?thesis
    using Inr by (simp add: fetchSinglePrice_def catch_NA_def)
qed

subsection \<open>The loop over the batches\<close>

lemma all_results_Inr:
  "(\<And>r. r \<in> set rs \<Longrightarrow> \<exists>y. r = Inr y) \<Longrightarrow> all_results rs = Inr (map projr rs)"
proof (induction rs)
  case Nil
  then show ?case by simp
next
  case (Cons r rs)
  then obtain y where "r = Inr y"
    by (meson list.set_intros(1))
  then show ?case
    using Cons by simp
qed

lemma fetchSinglePrice_quote_of: "fetchSinglePrice w ticker = Inr (quote_of w ticker)"
  using fetchSinglePrice_quote [of w ticker] by (auto simp: quote_of_def)

lemma quote_of_string: "quote_string (quote_of w ticker)"
  using fetchSinglePrice_quote [of w ticker] by (auto simp: quote_of_def)

lemma batch_results: "all_results (map (fetchSinglePrice w) batch) = Inr (map (quote_of w) batch)"
proof -
  have "all_results (map (fetchSinglePrice w) batch) = Inr (map projr (map (fetchSinglePrice w) batch))"
    by (rule all_results_Inr) (auto simp: fetchSinglePrice_quote_of)
  then show ?thesis
    by (simp add: quote_of_def comp_def)
qed

lemma batch_assign:
  "foldl (\<lambda>m (ticker, r). m(ToString (numstr w) ticker \<mapsto> r)) prices (zip batch (map (quote_of w) batch))
     = foldl (assign w) prices batch"
  by (induction batch arbitrary: prices) (simp_all add: assign_def)

lemma fetchBatches_foldl:
  "fetchBatches w tickers i prices = Inr (foldl (assign w) prices (drop i tickers))"
proof (induction w tickers i prices rule: fetchBatches.induct)
  case (1 w tickers i prices)
  show ?case
  proof (cases "i < length tickers")
    case True
    have "fetchBatches w tickers i prices
            = fetchBatches w tickers (i + 10) (foldl (assign w) prices (take 10 (drop i tickers)))"
      using True by (subst fetchBatches.simps) (simp add: batch_results batch_assign)
    also have "\<dots> = Inr (foldl (assign w) (foldl (assign w) prices (take 10 (drop i tickers)))
                           (drop (i + 10) tickers))"
      using "1.IH" [OF True refl batch_results] by (simp only: batch_assign)
    also have "\<dots> = Inr (foldl (assign w) prices (drop i tickers))"
    proof -
      have "drop (i + 10) tickers = drop 10 (drop i tickers)"
        by (simp add: add.commute)
      then show ?thesis
        by (metis foldl_append append_take_drop_id)
    qed
    finally show ?thesis .
  next
    case False
    then show ?thesis
      by (subst fetchBatches.simps) simp
  qed
qed

lemma fetchTickerPrices_foldl:
  "fetchTickerPrices w tickers = Inr (foldl (assign w) Map.empty tickers)"
  by (simp add: fetchTickerPrices_def fetchBatches_foldl)

lemma foldl_assign_lookup:
  "foldl (assign w) m tickers k = Some s \<Longrightarrow> m k = Some s \<or> quote_string s"
proof (induction tickers arbitrary: m)
  case Nil
  then show ?case by simp
next
  case (Cons t ts)
  then have "assign w m t k = Some s \<or> quote_string s"
    by simp
  then show ?case
    using quote_of_string [of w t] by (auto simp: assign_def split: if_splits)
qed

lemma foldl_assign_dom:
  "ticker \<in> set tickers \<Longrightarrow> foldl (assign w) m tickers (ToString (numstr w) ticker) \<noteq> None"
proof (induction tickers arbitrary: m rule: rev_induct)
  case Nil
  then show ?case by simp
next
  case (snoc t ts)
  then show ?case
    by (auto simp: assign_def)
qed

lemma prices_lookup:
  assumes "fetchTickerPrices w (map TICKER rows) = Inr prices" and "r \<in> set rows"
  shows "\<exists>s. prices (ToString (numstr w) (TICKER r)) = Some s \<and> quote_string s"
proof -
  have p: "prices = foldl (assign w) Map.empty (map TICKER rows)"
    using assms(1) by (simp add: fetchTickerPrices_foldl)
  have "TICKER r \<in> set (map TICKER rows)"
    using assms(2) by simp
  then obtain s where s: "prices (ToString (numstr w) (TICKER r)) = Some s"
    using foldl_assign_dom [of "TICKER r" "map TICKER rows" w Map.empty] p by auto
  then have "quote_string s"
    using foldl_assign_lookup [of w Map.empty "map TICKER rows" _ s] p by auto
  then show ?thesis
    using s by blast
qed



subsection \<open>The table is always built\<close>

lemma cell_of_formatItem:
  "\<exists>s. cell_of (formatItem ns item) ''Daily Change'' = Str s"
  "\<exists>s. cell_of (formatItem ns item) ''Contribution'' = Str s"
  by (simp_all add: cell_of_def formatItem_def Let_def)

lemma dataCell_formatItem: "\<exists>s. dataCell ns (formatItem ns item) header = Inr s"
proof (cases "header = ''Daily Change'' \<or> header = ''Contribution''")
  case True
  then obtain s where "cell_of (formatItem ns item) header = Str s"
    using cell_of_formatItem [of ns item] by auto
  then show ?thesis
    by (simp add: dataCell_def Let_def)
next
  case False
  then show ?thesis
    by (simp add: dataCell_def Let_def)
qed

lemma all_results_ex:
  assumes "\<And>r. r \<in> set rs \<Longrightarrow> \<exists>y. r = Inr y"
  shows "\<exists>ys. all_results rs = Inr ys"
  using all_results_Inr [OF assms] by blast

lemma dataRow_formatItem:
  assumes "index < length dataRows"
  shows "\<exists>s. dataRow ns headers dataRows index (formatItem ns item) = Inr s"
proof -
  have "\<exists>cells. all_results (map (dataCell ns (formatItem ns item)) headers) = Inr cells"
    by (rule all_results_ex) (auto simp: dataCell_formatItem)
  then show ?thesis
    using assms by (auto simp: dataRow_def Let_def)
qed

lemma buildColorCodedTable_returns:
  "\<exists>s. buildColorCodedTable ns (map (formatItem ns) items) items total' = Inr s"
proof (cases "items = []")
  case True
  then show ?thesis
    by (simp add: buildColorCodedTable_def)
next
  case False
  let ?headers = "map fst (hd (map (formatItem ns) items))"
  have "\<exists>trs. all_results
                 (map (\<lambda>(index, r). dataRow ns ?headers items index r)
                    (zip [0..<length (map (formatItem ns) items)] (map (formatItem ns) items)))
               = Inr trs"
  proof (rule all_results_ex)
    fix r
    assume "r \<in> set (map (\<lambda>(index, r). dataRow ns ?headers items index r)
                    (zip [0..<length (map (formatItem ns) items)] (map (formatItem ns) items)))"
    then obtain index f where r: "r = dataRow ns ?headers items index f"
      and z: "(index, f) \<in> set (zip [0..<length (map (formatItem ns) items)] (map (formatItem ns) items))"
      by auto
    have "index < length items"
      using z by (auto dest!: set_zip_leftD)
    moreover obtain item where "f = formatItem ns item"
      using z by (auto dest!: set_zip_rightD)
    ultimately show "\<exists>y. r = Inr y"
      using r dataRow_formatItem [of index items ns ?headers item] by auto
  qed
  then show ?thesis
    using False by (auto simp: buildColorCodedTable_def Let_def)
qed

lemma handler_try_ok:
  assumes "excel w = Inr response" and "ok response" and "payload response = Inr jsonData"
  shows "\<exists>htmlTable. handler_try css w =
           Inr \<lparr>http_status = 200, contentType = ''text/html;charset=UTF-8'',
                cacheControl = Some ''public, max-age=300'',
                content = page css htmlTable (utc_now w)\<rparr>"
proof -
  obtain prices where p: "fetchTickerPrices w (map TICKER (filteredData (numstr w) jsonData)) = Inr prices"
    using fetchTickerPrices_foldl by blast
  obtain s where "buildColorCodedTable (numstr w)
       (map (formatItem (numstr w)) (dataWithContributions (numstr w) prices (filteredData (numstr w) jsonData)))
       (dataWithContributions (numstr w) prices (filteredData (numstr w) jsonData))
       (totalContribution (dataWithContributions (numstr w) prices (filteredData (numstr w) jsonData))) = Inr s"
    using buildColorCodedTable_returns by blast
  then show ?thesis
    using assms p by (auto simp: handler_try_def Let_def)
qed

subsection \<open>Failing quotes\<close>

text \<open>
  Fetching the quote of one ticker never throws: \<open>fetchSinglePrice\<close> and
  \<open>fetchBarchartPrice\<close> always return a string. These failures give the string \<open>N/A\<close>: a
  ticker cell that is not a string, and on either path a failed request, a status that
  is not a success, a body that cannot be read or parsed, and the missing data of
  \<open>yahoo_fails\<close> and \<open>barchart_fails\<close>. So the batches always complete with a table of
  prices, and once the spreadsheet is fetched and parsed the handler answers 200 whatever
  the quote servers do.
\<close>

theorem quotes_never_throw:
  "(\<exists>s. fetchSinglePrice w ticker = Inr s)
   \<and> (\<exists>s. fetchBarchartPrice w symbol = Inr s)
   \<and> (\<exists>prices. fetchTickerPrices w tickers = Inr prices)
   \<and> ((\<forall>t. ticker \<noteq> Str t) \<longrightarrow> fetchSinglePrice w ticker = Inr ''N/A'')
   \<and> (resolve t = Yahoo symbol \<and> yahoo_fails w symbol \<longrightarrow> fetchSinglePrice w (Str t) = Inr ''N/A'')
   \<and> (resolve t = Barchart symbol \<and> barchart_fails w symbol \<longrightarrow>
        fetchSinglePrice w (Str t) = Inr ''N/A'' \<and> fetchBarchartPrice w symbol = Inr ''N/A'')
   \<and> (excel w = Inr response \<and> ok response \<and> payload response = Inr jsonData \<longrightarrow>
        http_status (handler css w) = 200)"
proof -
  have a: "\<exists>s. fetchSinglePrice w ticker = Inr s"
    using fetchSinglePrice_quote by blast
  have b: "\<exists>s. fetchBarchartPrice w symbol = Inr s"
    using fetchBarchartPrice_quote by blast
  have c: "\<exists>prices. fetchTickerPrices w tickers = Inr prices"
    using fetchTickerPrices_foldl by blast
  have d: "fetchSinglePrice w ticker = Inr ''N/A''" if "\<forall>t. ticker \<noteq> Str t"
    using that by (cases ticker) (simp_all add: fetchSinglePrice_def fetchSinglePrice_try_def catch_NA_def)
  have y: "catch_NA (yahooQuote w symbol) = Inr ''N/A''" if "yahoo_fails w symbol"
    using that
    by (auto simp: yahoo_fails_def yahooQuote_def catch_NA_def Let_def
        split: sum.splits option.splits)
  have e: "fetchSinglePrice w (Str t) = Inr ''N/A''"
    if "resolve t = Yahoo symbol" and "yahoo_fails w symbol"
    using that y by (simp add: fetchSinglePrice_def fetchSinglePrice_try_resolve)
  have f: "fetchBarchartPrice w symbol = Inr ''N/A''" if "barchart_fails w symbol"
    using that
    by (auto simp: barchart_fails_def fetchBarchartPrice_def fetchBarchartPrice_try_def catch_NA_def
        Let_def split: sum.splits option.splits)
  have g: "fetchSinglePrice w (Str t) = Inr ''N/A''"
    if "resolve t = Barchart symbol" and "barchart_fails w symbol"
    using that f by (simp add: fetchSinglePrice_def fetchSinglePrice_try_resolve catch_NA_def)
  have h: "http_status (handler css w) = 200"
    if "excel w = Inr response" and "ok response" and "payload response = Inr jsonData"
    using handler_try_ok [OF that, of css] by (auto simp: handler_def)
  show ?thesis
    using a b c d e f g h by blast
qed

theorem quotes_never_throw_witness:
  "fetchSinglePrice market (Num (Fin 7203)) = Inr ''N/A''
   \<and> resolve ''NGZ5'' = Yahoo ''NG=F'' \<and> yahoo_fails market ''NG=F''
   \<and> fetchSinglePrice market (Str ''NGZ5'') = Inr ''N/A''
   \<and> resolve ''MESZ5'' = Barchart ''M0'' \<and> barchart_fails market ''M0''
   \<and> fetchSinglePrice market (Str ''MESZ5'') = Inr ''N/A''
   \<and> excel market = Inr \<lparr>status = 200, statusText = ''OK'', payload = Inr market_rows\<rparr>
   \<and> http_status (handler '''' market) = 200"
proof -
  have a: "\<forall>t. Num (Fin 7203) \<noteq> Str t"
    by simp
  have b: "resolve ''NGZ5'' = Yahoo ''NG=F''" and c: "yahoo_fails market ''NG=F''"
    and d: "resolve ''MESZ5'' = Barchart ''M0''" and e: "barchart_fails market ''M0''"
    by code_simp+
  have f: "excel market = Inr \<lparr>status = 200, statusText = ''OK'', payload = Inr market_rows\<rparr>"
    and g: "ok \<lparr>status = 200, statusText = ''OK'', payload = Inr market_rows :: row list result\<rparr>"
    by (simp_all add: market_def ok_def)
  have "fetchSinglePrice market (Num (Fin 7203)) = Inr ''N/A''"
    and "fetchSinglePrice market (Str ''NGZ5'') = Inr ''N/A''"
    and "http_status (handler '''' market) = 200"
    using quotes_never_throw
      [where w = market and ticker = "Num (Fin 7203)" and t = "''NGZ5''" and symbol = "''NG=F''"
         and response = "\<lparr>status = 200, statusText = ''OK'', payload = Inr market_rows\<rparr>"
         and jsonData = market_rows and css = "''''"] a b c f g
    by simp_all
  moreover have "fetchSinglePrice market (Str ''MESZ5'') = Inr ''N/A''"
    using quotes_never_throw [where w = market and t = "''MESZ5''" and symbol = "''M0''"] d e
    by blast
  ultimately show ?thesis
    using b c d e f by simp
qed

text \<open>
  Claim C7. Every failure of a quote fetch, malformed data among them, is to give the
  string \<open>N/A\<close>. The answer of Yahoo for \<open>PL=F\<close> is JSON with its metadata, in which
  \<open>regularMarketPrice\<close> is the string \<open>n/a\<close> and \<open>chartPreviousClose\<close> is 100. Both are
  truthy, the difference of a string that is no numeral and a number is \<open>NaN\<close>, and
  \<open>fetchSinglePrice\<close> returns \<open>+NaN%\<close>: no exception, and not \<open>N/A\<close>. The Barchart path
  tests the number it parsed with \<open>isNaN\<close>: a page whose \<open>percentChange\<close> is \<open>n/a\<close> gives
  \<open>N/A\<close>. The holding is then shown with the daily change \<open>+NaN%\<close>, and its contribution
  and the total of the fund are \<open>NaN\<close>.
\<close>

theorem garbled_price_is_not_NA:
  "resolve ''PLZ5'' = Yahoo ''PL=F''
   \<and> yahoo market ''PL=F'' = Inr (chart_of (Str ''n/a'') (Num (Fin 100)) Undefined False)
   \<and> ok (chart_of (Str ''n/a'') (Num (Fin 100)) Undefined False)
   \<and> fetchSinglePrice market (Str ''PLZ5'') = Inr ''+NaN%''
   \<and> fetchSinglePrice market (Str ''PLZ5'') \<noteq> Inr ''N/A''
   \<and> resolve ''MFSZ5'' = Barchart ''DI''
   \<and> barchart garbled ''DI'' = Inr \<lparr>status = 200, statusText = ''OK'',
        payload = Inr ''{\"percentChange\":\"n/a\"}''\<rparr>
   \<and> fetchSinglePrice garbled (Str ''MFSZ5'') = Inr ''N/A''
   \<and> map contribution garbled_items = [NaN]
   \<and> totalContribution garbled_items = NaN"
proof -
  have "resolve ''PLZ5'' = Yahoo ''PL=F''"
    by code_simp
  moreover have "yahoo market ''PL=F'' = Inr (chart_of (Str ''n/a'') (Num (Fin 100)) Undefined False)"
    by (simp add: market_def market_yahoo_def)
  moreover have "ok (chart_of (Str ''n/a'') (Num (Fin 100)) Undefined False)"
    by (simp add: ok_def chart_of_def)
  moreover have q: "fetchSinglePrice market (Str ''PLZ5'') = Inr ''+NaN%''"
    by code_simp
  moreover have "fetchSinglePrice market (Str ''PLZ5'') \<noteq> Inr ''N/A''"
    unfolding q by simp
  moreover have "resolve ''MFSZ5'' = Barchart ''DI''"
    by code_simp
  moreover have "barchart garbled ''DI'' = Inr \<lparr>status = 200, statusText = ''OK'',
        payload = Inr ''{\"percentChange\":\"n/a\"}''\<rparr>"
    by (simp add: garbled_def garbled_barchart_def)
  moreover have "fetchSinglePrice garbled (Str ''MFSZ5'') = Inr ''N/A''"
    by code_simp
  moreover have "map contribution garbled_items = [NaN]"
    by code_simp
  moreover have "totalContribution garbled_items = NaN"
    by code_simp
  ultimately show ?thesis
    by simp
qed

subsection \<open>The percent change of a Yahoo quote\<close>





subsection \<open>The contribution of a holding\<close>

text \<open>
  What the pipeline computes for every row that it enriches, with the prices that
  \<open>fetchTickerPrices\<close> returned for the tickers of the rows: when the percent-change string
  of the row is \<open>N/A\<close> or absent, its contribution and its decimal change are 0;
  otherwise its decimal change is the number that \<open>parseFloat\<close> reads from the string
  without its \<open>%\<close>, divided by 100, and its contribution is \<open>holdingsPct\<close> times that
  decimal change. The string is the one stored for the ticker of the row.
\<close>

theorem contribution_by_parseFloat:
  assumes "fetchTickerPrices w (map TICKER rows) = Inr prices"
    and "item \<in> set (dataWithContributions (numstr w) prices rows)"
  shows
  "(dailyChangeStr item = None \<or> dailyChangeStr item = Some ''N/A'' \<longrightarrow>
      contribution item = Fin 0 \<and> dailyChangePct item = Fin 0)
   \<and> (dailyChangeStr item \<noteq> None \<and> dailyChangeStr item \<noteq> Some ''N/A'' \<longrightarrow>
      dailyChangePct item
        = js_div (parseFloat (remove1 CHR ''%'' (the (dailyChangeStr item)))) (Fin 100)
      \<and> contribution item
        = js_mul (ToNumber (PCT_HOLDINGS (original item))) (dailyChangePct item))
   \<and> dailyChangeStr item = prices (ToString (numstr w) (TICKER (original item)))
   \<and> original item \<in> set rows"
proof -
  have "set (dataWithContributions (numstr w) prices rows) = set (map (enrich (numstr w) prices) rows)"
    unfolding dataWithContributions_def using mset_js_sort by (metis set_mset_mset)
  then obtain r where r: "r \<in> set rows" and i: "item = enrich (numstr w) prices r"
    using assms(2) by auto
  obtain s where s: "prices (ToString (numstr w) (TICKER r)) = Some s" and "quote_string s"
    using prices_lookup [OF assms(1) r] by blast
  then have "s \<noteq> ''''"
    using quote_string_nonempty by blast
  then show ?thesis
    using r i s by (simp add: enrich_def Let_def)
qed

theorem contribution_by_parseFloat_witness:
  "fetchTickerPrices market (map TICKER market_kept) = Inr market_prices
   \<and> hd market_items \<in> set market_items
   \<and> map (\<lambda>i. (TICKER (original i), dailyChangeStr i)) market_items
       = [(Str ''CLZ5'', Some ''+2.00%''), (Str ''MFSZ5'', Some ''-0.54%''),
          (Str ''XYZ'', Some ''N/A''), (Str ''MESZ5'', Some ''N/A'')]
   \<and> map dailyChangePct market_items = [Fin (2 / 100), Fin (- 54 / 10000), Fin 0, Fin 0]
   \<and> map contribution market_items = [Fin (2 / 1000), Fin (108 / 100000), Fin 0, Fin 0]
   \<and> dailyChangePct (hd market_items) = js_div (parseFloat ''+2.00'') (Fin 100)
   \<and> contribution (hd market_items) = js_mul (Fin (10 / 100)) (Fin (2 / 100))
   \<and> contribution (last market_items) = Fin 0"
proof -
  have a: "fetchTickerPrices market (map TICKER market_kept) = Inr market_prices"
    by (simp add: fetchTickerPrices_foldl market_prices_def)
  have b: "hd market_items \<in> set (dataWithContributions (numstr market) market_prices market_kept)"
    and b': "last market_items \<in> set (dataWithContributions (numstr market) market_prices market_kept)"
    by code_simp+
  have c: "map (\<lambda>i. (TICKER (original i), dailyChangeStr i)) market_items
       = [(Str ''CLZ5'', Some ''+2.00%''), (Str ''MFSZ5'', Some ''-0.54%''),
          (Str ''XYZ'', Some ''N/A''), (Str ''MESZ5'', Some ''N/A'')]"
    and d: "map dailyChangePct market_items = [Fin (2 / 100), Fin (- 54 / 10000), Fin 0, Fin 0]"
    and e: "map contribution market_items = [Fin (2 / 1000), Fin (108 / 100000), Fin 0, Fin 0]"
    by code_simp+
  have f: "dailyChangeStr (hd market_items) = Some ''+2.00%''"
    and g: "PCT_HOLDINGS (original (hd market_items)) = Num (Fin (10 / 100))"
    and h: "dailyChangeStr (last market_items) = Some ''N/A''"
    by code_simp+
  have "dailyChangePct (hd market_items) = js_div (parseFloat ''+2.00'') (Fin 100)"
    and "contribution (hd market_items)
           = js_mul (ToNumber (PCT_HOLDINGS (original (hd market_items)))) (dailyChangePct (hd market_items))"
    using contribution_by_parseFloat [OF a b] f by simp_all
  moreover have "contribution (last market_items) = Fin 0"
    using contribution_by_parseFloat [OF a b'] h by simp
  moreover have "dailyChangePct (hd market_items) = Fin (2 / 100)"
    by code_simp
  ultimately show ?thesis
    using a b c d e g by (simp add: market_items_def)
qed

text \<open>
  The strings are written by \<open>formatChangePercent\<close>, which groups the integer digits by
  thousands, and \<open>parseFloat\<close> stops at the first comma.
\<close>

lemma fixed2_surge:
  assumes "q = 12345 / 10"
  shows "fixed2 q = ''1,234.50''"
proof -
  have "\<lfloor>\<bar>q\<bar> * 100 + 1 / 2\<rfloor> = 123450"
    using assms by (simp add: floor_eq_iff)
  then have "nat \<lfloor>\<bar>q\<bar> * 100 + 1 / 2\<rfloor> = 123450"
    by simp
  then show ?thesis
    by (simp add: fixed2_eq grouped.simps digits_of.simps digit_char_def)
qed

lemma surge_display: "formatChangePercent (Num (Fin (12345 / 10))) = ''+1,234.50%''"
  by (simp add: formatChangePercent_def format_signed_def fixed2_surge)

lemma surge_quote: "fetchSinglePrice market (Str ''KCZ5'') = Inr ''+1,234.50%''"
proof -
  have "resolve ''KCZ5'' = Yahoo ''KC=F''"
    by code_simp
  then have "fetchSinglePrice market (Str ''KCZ5'') = catch_NA (yahooQuote market ''KC=F'')"
    by (simp add: fetchSinglePrice_def fetchSinglePrice_try_resolve)
  also have "\<dots> = Inr (formatChangePercent (Num (Fin (12345 / 10))))"
    by (simp add: yahooQuote_def catch_NA_def market_def market_yahoo_def chart_of_def ok_def
        js_or_def js_sub_def Let_def)
  finally show ?thesis
    by (simp only: surge_display)
qed

lemma surge_prices_eq: "surge_prices = [''KCZ5'' \<mapsto> ''+1,234.50%'']"
  using surge_quote
  by (simp add: surge_prices_def surge_rows_def holding_def assign_def quote_of_def)

lemma surge_item:
  "surge_items =
     [\<lparr>original = holding ''KCZ5'' (Num (Fin (10 / 100))), dailyChangeStr = Some ''+1,234.50%'',
       dailyChangePct = Fin (1 / 100), contribution = Fin (1 / 1000)\<rparr>]"
proof -
  have "parseFloat (remove1 CHR ''%'' ''+1,234.50%'') = Fin 1"
    by code_simp
  then have "enrich (numstr market) surge_prices (holding ''KCZ5'' (Num (Fin (10 / 100))))
       = \<lparr>original = holding ''KCZ5'' (Num (Fin (10 / 100))), dailyChangeStr = Some ''+1,234.50%'',
          dailyChangePct = Fin (1 / 100), contribution = Fin (1 / 1000)\<rparr>"
    by (simp add: enrich_def surge_prices_eq holding_def Let_def)
  then show ?thesis
    by (simp add: surge_items_def surge_rows_def dataWithContributions_def js_sort_def)
qed

text \<open>
  Claim C1. The decimal change of a holding is to be the number in its percent-change
  string divided by 100, and its contribution \<open>holdingsPct\<close> times that. \<open>KC=F\<close> went from
  100 to 1334.5, a change of 1234.5 percent, and the string of \<open>KCZ5\<close> is \<open>+1,234.50%\<close>.
  The number in it is 1234.5: the decimal change would be 12.345 and the contribution of
  a holding of weight 0.10 would be 1.2345. The code reads only the digits before the
  comma: the decimal change is 0.01 and the contribution is 0.001, so that the page shows
  the daily change \<open>+1,234.50%\<close> next to the contribution \<open>+0.10%\<close>.
\<close>

theorem thousands_separator_cuts_change:
  "fetchTickerPrices market (map TICKER surge_rows) = Inr surge_prices
   \<and> surge_prices ''KCZ5'' = Some ''+1,234.50%''
   \<and> formatChangePercent (Num (Fin (12345 / 10))) = ''+1,234.50%''
   \<and> surge_items = dataWithContributions (numstr market) surge_prices surge_rows
   \<and> map dailyChangeStr surge_items = [Some ''+1,234.50%'']
   \<and> map (PCT_HOLDINGS \<circ> original) surge_items = [Num (Fin (10 / 100))]
   \<and> map dailyChangePct surge_items = [Fin (1 / 100)]
   \<and> map dailyChangePct surge_items \<noteq> [js_div (Fin (12345 / 10)) (Fin 100)]
   \<and> map contribution surge_items = [Fin (1 / 1000)]
   \<and> map contribution surge_items
        \<noteq> [js_mul (Fin (10 / 100)) (js_div (Fin (12345 / 10)) (Fin 100))]
   \<and> map (\<lambda>item. cell_of (formatItem (numstr market) item) ''Contribution'') surge_items
        = [Str ''+0.10%'']"
proof -
  have "fetchTickerPrices market (map TICKER surge_rows) = Inr surge_prices"
    by (simp add: fetchTickerPrices_foldl surge_prices_def)
  moreover have "surge_prices ''KCZ5'' = Some ''+1,234.50%''"
    by (simp add: surge_prices_eq)
  moreover have "surge_items = dataWithContributions (numstr market) surge_prices surge_rows"
    by (simp add: surge_items_def)
  moreover have "map dailyChangeStr surge_items = [Some ''+1,234.50%'']"
    and "map (PCT_HOLDINGS \<circ> original) surge_items = [Num (Fin (10 / 100))]"
    and "map dailyChangePct surge_items = [Fin (1 / 100)]"
    and "map dailyChangePct surge_items \<noteq> [js_div (Fin (12345 / 10)) (Fin 100)]"
    and "map contribution surge_items = [Fin (1 / 1000)]"
    and "map contribution surge_items
           \<noteq> [js_mul (Fin (10 / 100)) (js_div (Fin (12345 / 10)) (Fin 100))]"
    by (simp_all add: surge_item holding_def)
  moreover have "formatChangePercent (Num (js_mul (Fin (1 / 1000)) (Fin 100))) = ''+0.10%''"
    by code_simp
  then have "map (\<lambda>item. cell_of (formatItem (numstr market) item) ''Contribution'') surge_items
        = [Str ''+0.10%'']"
    by (simp add: surge_item cell_of_def formatItem_def Let_def)
  ultimately show ?thesis
    using surge_display by simp
qed

end
